theory Spec2Isabelle
  imports Complex_Main
begin

section \<open>JavaScript numbers\<close>

text \<open>
  The statistics engine (\<^verbatim>\<open>financialCalculations.js\<close>) and the compliance engine
  (\<^verbatim>\<open>iirocCompliance.js\<close>) compute with JavaScript numbers, the IEEE 754 binary64
  values. A number is modelled as the real value of a finite double or one of the three
  special values \<open>Infinity\<close>, \<open>-Infinity\<close> and \<open>NaN\<close>. The sign of zero is not
  modelled.
\<close>

datatype number = Double real | PInf | NInf | NaN

text \<open>
  Rounding to the nearest double, ties to even. \<open>round_to_even\<close> rounds a real to the
  nearest integer, a tie going to the even neighbour. \<open>binade x\<close> is the exponent \<open>e\<close>
  with \<open>2^e \<le> |x| < 2^(e+1)\<close>, and \<open>-1022\<close> below the normal range, so that
  \<open>ulp x\<close>, the spacing of the doubles around \<open>x\<close>, is \<open>2^(binade x - 52)\<close>, and
  \<open>nearest x\<close> is the multiple of that spacing nearest to \<open>x\<close>. \<open>Fin x\<close> is the
  number nearest to the real \<open>x\<close>: the value of a decimal literal, and the result of an
  arithmetic operation whose exact result is \<open>x\<close>. A result of magnitude \<open>2^1024\<close> or
  more after rounding is infinite.
\<close>

definition round_to_even :: "real \<Rightarrow> int" where
  "round_to_even y =
     (let f = \<lfloor>y\<rfloor>
      in if y - of_int f < 1 / 2 then f
         else if 1 / 2 < y - of_int f then f + 1
         else if even f then f else f + 1)"

definition binade :: "real \<Rightarrow> int" where
  "binade x = (if x = 0 then - 1022 else max \<lfloor>log 2 \<bar>x\<bar>\<rfloor> (- 1022))"

definition ulp :: "real \<Rightarrow> real" where
  "ulp x = 2 powi (binade x - 52)"

definition nearest :: "real \<Rightarrow> real" where
  "nearest x = of_int (round_to_even (x / ulp x)) * ulp x"

definition Fin :: "real \<Rightarrow> number" where
  "Fin x =
     (if 2 ^ 1024 \<le> \<bar>nearest x\<bar> then (if 0 < x then PInf else NInf)
      else Double (nearest x))"

instantiation number :: "{plus, minus, uminus, times, inverse, ord}"
begin

fun uminus_number :: "number \<Rightarrow> number" where
  "uminus_number (Double a) = Double (- a)"
| "uminus_number PInf = NInf"
| "uminus_number NInf = PInf"
| "uminus_number NaN = NaN"

fun plus_number :: "number \<Rightarrow> number \<Rightarrow> number" where
  "plus_number (Double a) (Double b) = Fin (a + b)"
| "plus_number NaN _ = NaN"
| "plus_number _ NaN = NaN"
| "plus_number PInf NInf = NaN"
| "plus_number NInf PInf = NaN"
| "plus_number PInf _ = PInf"
| "plus_number NInf _ = NInf"
| "plus_number _ PInf = PInf"
| "plus_number _ NInf = NInf"

definition minus_number :: "number \<Rightarrow> number \<Rightarrow> number" where
  "minus_number x y = x + (- y)"

fun times_number :: "number \<Rightarrow> number \<Rightarrow> number" where
  "times_number (Double a) (Double b) = Fin (a * b)"
| "times_number NaN _ = NaN"
| "times_number _ NaN = NaN"
| "times_number PInf (Double b) = (if b = 0 then NaN else if 0 < b then PInf else NInf)"
| "times_number NInf (Double b) = (if b = 0 then NaN else if 0 < b then NInf else PInf)"
| "times_number (Double a) PInf = (if a = 0 then NaN else if 0 < a then PInf else NInf)"
| "times_number (Double a) NInf = (if a = 0 then NaN else if 0 < a then NInf else PInf)"
| "times_number PInf PInf = PInf"
| "times_number PInf NInf = NInf"
| "times_number NInf PInf = NInf"
| "times_number NInf NInf = PInf"

fun divide_number :: "number \<Rightarrow> number \<Rightarrow> number" where
  "divide_number (Double a) (Double b) =
     (if b \<noteq> 0 then Fin (a / b)
      else if a = 0 then NaN
      else if 0 < a then PInf else NInf)"
| "divide_number NaN _ = NaN"
| "divide_number _ NaN = NaN"
| "divide_number (Double a) PInf = Double 0"
| "divide_number (Double a) NInf = Double 0"
| "divide_number PInf (Double b) = (if 0 \<le> b then PInf else NInf)"
| "divide_number NInf (Double b) = (if 0 \<le> b then NInf else PInf)"
| "divide_number PInf _ = NaN"
| "divide_number NInf _ = NaN"

definition inverse_number :: "number \<Rightarrow> number" where
  "inverse_number x = Double 1 div x"

fun less_number :: "number \<Rightarrow> number \<Rightarrow> bool" where
  "less_number (Double a) (Double b) = (a < b)"
| "less_number NaN _ = False"
| "less_number _ NaN = False"
| "less_number PInf _ = False"
| "less_number _ NInf = False"
| "less_number NInf _ = True"
| "less_number _ PInf = True"

fun less_eq_number :: "number \<Rightarrow> number \<Rightarrow> bool" where
  "less_eq_number (Double a) (Double b) = (a \<le> b)"
| "less_eq_number NaN _ = False"
| "less_eq_number _ NaN = False"
| "less_eq_number NInf _ = True"
| "less_eq_number _ PInf = True"
| "less_eq_number PInf _ = False"
| "less_eq_number _ NInf = False"

instance ..

end

text \<open>\<^verbatim>\<open>x === y\<close> on numbers: \<open>NaN\<close> is not equal to itself.\<close>

definition strict_eq :: "number \<Rightarrow> number \<Rightarrow> bool" where
  "strict_eq x y = (x \<noteq> NaN \<and> y \<noteq> NaN \<and> x = y)"

text \<open>\<^verbatim>\<open>Math.sqrt\<close> is correctly rounded; the floor of a double is a double.\<close>

fun Math_sqrt :: "number \<Rightarrow> number" where
  "Math_sqrt (Double a) = (if a < 0 then NaN else Fin (sqrt a))"
| "Math_sqrt PInf = PInf"
| "Math_sqrt NInf = NaN"
| "Math_sqrt NaN = NaN"

fun Math_floor :: "number \<Rightarrow> number" where
  "Math_floor (Double a) = Double (of_int \<lfloor>a\<rfloor>)"
| "Math_floor x = x"

fun Math_min :: "number \<Rightarrow> number \<Rightarrow> number" where
  "Math_min NaN _ = NaN"
| "Math_min _ NaN = NaN"
| "Math_min x y = (if x \<le> y then x else y)"

text \<open>
  \<^verbatim>\<open>Math.pow(base, exponent)\<close>, case by case as the language defines it. A finite
  negative base has a power only for an integral exponent. The language leaves the
  accuracy of a finite power to the implementation; it is taken here as the rounding of
  the exact power, which is what the implementation returns for the exponents \<open>1\<close> and
  \<open>2\<close> (the base itself and its rounded square).
\<close>

definition is_integral :: "real \<Rightarrow> bool" where
  "is_integral e = (e = of_int \<lfloor>e\<rfloor>)"

definition real_pow :: "real \<Rightarrow> real \<Rightarrow> real" where
  "real_pow x e =
     (if 0 < x then x powr e
      else if odd \<lfloor>e\<rfloor> then - (\<bar>x\<bar> powr e) else \<bar>x\<bar> powr e)"

fun Math_pow :: "number \<Rightarrow> number \<Rightarrow> number" where
  "Math_pow _ NaN = NaN"
| "Math_pow b (Double e) =
     (if e = 0 then Double 1
      else case b of
        NaN \<Rightarrow> NaN
      | PInf \<Rightarrow> (if 0 < e then PInf else Double 0)
      | NInf \<Rightarrow> (if 0 < e then (if is_integral e \<and> odd \<lfloor>e\<rfloor> then NInf else PInf) else Double 0)
      | Double x \<Rightarrow>
          (if x = 0 then (if 0 < e then Double 0 else PInf)
           else if x < 0 \<and> \<not> is_integral e then NaN
           else Fin (real_pow x e)))"
| "Math_pow b PInf =
     (case b of
        NaN \<Rightarrow> NaN
      | PInf \<Rightarrow> PInf
      | NInf \<Rightarrow> PInf
      | Double x \<Rightarrow> (if 1 < \<bar>x\<bar> then PInf else if \<bar>x\<bar> = 1 then NaN else Double 0))"
| "Math_pow b NInf =
     (case b of
        NaN \<Rightarrow> NaN
      | PInf \<Rightarrow> Double 0
      | NInf \<Rightarrow> Double 0
      | Double x \<Rightarrow> (if 1 < \<bar>x\<bar> then Double 0 else if \<bar>x\<bar> = 1 then NaN else PInf))"

text \<open>
  \<^verbatim>\<open>parseFloat(x.toFixed(d))\<close>: \<open>toFixed\<close> prints the exact value of a finite
  double rounded to \<open>d\<close> decimals, a tie going to the larger magnitude, and
  \<open>parseFloat\<close> reads the decimal back as the nearest double. A number of magnitude
  \<open>10^21\<close> and above is printed in full and read back unchanged; \<open>NaN\<close> and the
  infinities print as their names, which \<open>parseFloat\<close> reads back.
\<close>

definition round_half_up :: "real \<Rightarrow> nat \<Rightarrow> real" where
  "round_half_up x d = sgn x * of_int \<lfloor>\<bar>x\<bar> * 10 ^ d + 1 / 2\<rfloor> / 10 ^ d"

fun toFixed :: "number \<Rightarrow> nat \<Rightarrow> number" where
  "toFixed (Double x) d = (if 10 ^ 21 \<le> \<bar>x\<bar> then Double x else Fin (round_half_up x d))"
| "toFixed x d = x"

text \<open>\<^verbatim>\<open>xs.reduce((sum, ret) => sum + ret, 0)\<close> on an array of numbers.\<close>

definition reduce_sum :: "number list \<Rightarrow> number" where
  "reduce_sum xs = foldl (\<lambda>sum ret. sum + ret) (Fin 0) xs"

section \<open>Statistics engine\<close>

text \<open>
  The static methods of \<^verbatim>\<open>FinancialCalculations\<close>, in the order of the source. An
  argument is given by its decimal value, a real, and \<open>Fin\<close> reads it as a number; an
  array of observations is a list of such values, and \<open>map Fin returns\<close> is the array of
  numbers. \<open>calculateVolatility\<close>, which the engine also calls on an array it has
  computed, takes the array of numbers itself. A parameter with a default value
  (\<open>riskFreeRate = 2.5\<close>, \<open>confidenceLevel = 0.95\<close>) is an ordinary parameter here. A
  \<open>throw\<close> is the left summand of the result.
\<close>

datatype error = Error string | TypeError

definition calculatePROR :: "real \<Rightarrow> real \<Rightarrow> real \<Rightarrow> real \<Rightarrow> real \<Rightarrow> error + number" where
  "calculatePROR beginningValue endingValue contributions withdrawals timePeriod =
     (if Fin beginningValue \<le> Fin 0
      then Inl (Error ''Beginning value must be greater than zero'')
      else
        let netCashFlow = Fin contributions - Fin withdrawals;
            weightedContributions = Fin contributions * (Fin timePeriod / Fin 12);
            denominator = Fin beginningValue + weightedContributions
        in if denominator \<le> Fin 0
           then Inl (Error ''Invalid calculation parameters'')
           else
             let pror = ((Fin endingValue - Fin beginningValue - netCashFlow) / denominator) * Fin 100
             in Inr (toFixed pror 2))"

definition calculateAnnualizedReturn :: "real list \<Rightarrow> real \<Rightarrow> number" where
  "calculateAnnualizedReturn returns timePeriod =
     (if length returns = 0 then Fin 0
      else
        let totalReturn = foldl (\<lambda>sum ret. sum + (Fin 1 + Fin ret / Fin 100)) (Fin 1) returns;
            annualizedReturn = Math_pow totalReturn (Fin 12 / Fin timePeriod) - Fin 1
        in toFixed (annualizedReturn * Fin 100) 2)"

text \<open>\<^verbatim>\<open>xs.reduce((sum, ret) => sum + Math.pow(ret - avgReturn, 2), 0)\<close>\<close>

definition reduce_squares :: "number \<Rightarrow> number list \<Rightarrow> number" where
  "reduce_squares avgReturn xs =
     foldl (\<lambda>sum ret. sum + Math_pow (ret - avgReturn) (Fin 2)) (Fin 0) xs"

definition calculateSharpeRatio :: "real list \<Rightarrow> real \<Rightarrow> number" where
  "calculateSharpeRatio returns riskFreeRate =
     (if length returns = 0 then Fin 0
      else
        let avgReturn = reduce_sum (map Fin returns) / Fin (real (length returns));
            variance = reduce_squares avgReturn (map Fin returns) / Fin (real (length returns));
            stdDev = Math_sqrt variance
        in if strict_eq stdDev (Fin 0) then Fin 0
           else
             let sharpeRatio = (avgReturn - Fin riskFreeRate) / stdDev
             in toFixed sharpeRatio 3)"

text \<open>
  The loop of \<^verbatim>\<open>calculateMaxDrawdown\<close> over \<open>navValues[1..]\<close>, with its two
  variables \<open>maxDrawdown\<close> and \<open>peak\<close>.
\<close>

fun maxDrawdown_loop :: "number \<Rightarrow> number \<Rightarrow> real list \<Rightarrow> number" where
  "maxDrawdown_loop maxDrawdown peak [] = maxDrawdown"
| "maxDrawdown_loop maxDrawdown peak (v # vs) =
     (if peak < Fin v then maxDrawdown_loop maxDrawdown (Fin v) vs
      else
        let drawdown = (peak - Fin v) / peak
        in if maxDrawdown < drawdown then maxDrawdown_loop drawdown peak vs
           else maxDrawdown_loop maxDrawdown peak vs)"

definition calculateMaxDrawdown :: "real list \<Rightarrow> number" where
  "calculateMaxDrawdown navValues =
     (if length navValues = 0 then Fin 0
      else
        let maxDrawdown = maxDrawdown_loop (Fin 0) (Fin (navValues ! 0)) (drop 1 navValues)
        in toFixed (maxDrawdown * Fin 100) 2)"

definition calculateVolatility :: "number list \<Rightarrow> number" where
  "calculateVolatility returns =
     (if length returns = 0 then Fin 0
      else
        let avgReturn = reduce_sum returns / Fin (real (length returns));
            variance = reduce_squares avgReturn returns / Fin (real (length returns));
            volatility = Math_sqrt variance
        in toFixed volatility 2)"

text \<open>
  The loop of \<^verbatim>\<open>calculateBeta\<close> over the indices \<open>0 .. length - 1\<close>; the state is
  the pair \<open>(covariance, benchmarkVariance)\<close>. Both arrays have the same length where
  the loop runs, so every read is in range.
\<close>

definition beta_step :: "real list \<Rightarrow> real list \<Rightarrow> number \<Rightarrow> number \<Rightarrow> number \<times> number \<Rightarrow> nat \<Rightarrow> number \<times> number" where
  "beta_step fundReturns benchmarkReturns fundAvg benchmarkAvg acc i =
     (let fundDiff = Fin (fundReturns ! i) - fundAvg;
          benchmarkDiff = Fin (benchmarkReturns ! i) - benchmarkAvg
      in (fst acc + fundDiff * benchmarkDiff, snd acc + benchmarkDiff * benchmarkDiff))"

definition calculateBeta :: "real list \<Rightarrow> real list \<Rightarrow> number" where
  "calculateBeta fundReturns benchmarkReturns =
     (if length fundReturns \<noteq> length benchmarkReturns \<or> length fundReturns = 0 then Fin 1
      else
        let fundAvg = reduce_sum (map Fin fundReturns) / Fin (real (length fundReturns));
            benchmarkAvg = reduce_sum (map Fin benchmarkReturns) / Fin (real (length benchmarkReturns));
            acc = foldl (beta_step fundReturns benchmarkReturns fundAvg benchmarkAvg)
                    (Fin 0, Fin 0) [0 ..< length fundReturns];
            covariance = fst acc / Fin (real (length fundReturns));
            benchmarkVariance = snd acc / Fin (real (length benchmarkReturns))
        in if strict_eq benchmarkVariance (Fin 0) then Fin 1
           else
             let beta = covariance / benchmarkVariance
             in toFixed beta 3)"

text \<open>
  The loop of \<^verbatim>\<open>calculateCorrelation\<close>; the state is
  \<open>(numerator, denominator1, denominator2)\<close>.
\<close>

definition correlation_step :: "real list \<Rightarrow> real list \<Rightarrow> number \<Rightarrow> number \<Rightarrow> number \<times> number \<times> number \<Rightarrow> nat \<Rightarrow> number \<times> number \<times> number" where
  "correlation_step returns1 returns2 avg1 avg2 acc i =
     (let diff1 = Fin (returns1 ! i) - avg1;
          diff2 = Fin (returns2 ! i) - avg2
      in (fst acc + diff1 * diff2, fst (snd acc) + diff1 * diff1, snd (snd acc) + diff2 * diff2))"

definition calculateCorrelation :: "real list \<Rightarrow> real list \<Rightarrow> number" where
  "calculateCorrelation returns1 returns2 =
     (if length returns1 \<noteq> length returns2 \<or> length returns1 = 0 then Fin 0
      else
        let avg1 = reduce_sum (map Fin returns1) / Fin (real (length returns1));
            avg2 = reduce_sum (map Fin returns2) / Fin (real (length returns2));
            acc = foldl (correlation_step returns1 returns2 avg1 avg2)
                    (Fin 0, Fin 0, Fin 0) [0 ..< length returns1];
            numerator = fst acc;
            denominator1 = fst (snd acc);
            denominator2 = snd (snd acc);
            denominator = Math_sqrt (denominator1 * denominator2)
        in if strict_eq denominator (Fin 0) then Fin 0
           else
             let correlation = numerator / denominator
             in toFixed correlation 3)"

text \<open>
  \<^verbatim>\<open>fundReturns.map((fund, i) => fund - benchmarkReturns[i])\<close>, run only where both
  arrays have the same length.
\<close>

definition excess_returns :: "real list \<Rightarrow> real list \<Rightarrow> number list" where
  "excess_returns fundReturns benchmarkReturns =
     map (\<lambda>i. Fin (fundReturns ! i) - Fin (benchmarkReturns ! i)) [0 ..< length fundReturns]"

definition calculateInformationRatio :: "real list \<Rightarrow> real list \<Rightarrow> number" where
  "calculateInformationRatio fundReturns benchmarkReturns =
     (if length fundReturns \<noteq> length benchmarkReturns \<or> length fundReturns = 0 then Fin 0
      else
        let excessReturns = excess_returns fundReturns benchmarkReturns;
            avgExcessReturn = reduce_sum excessReturns / Fin (real (length excessReturns));
            trackingError = calculateVolatility excessReturns
        in if strict_eq trackingError (Fin 0) then Fin 0
           else
             let informationRatio = avgExcessReturn / trackingError
             in toFixed informationRatio 3)"

definition calculateSortinoRatio :: "real list \<Rightarrow> real \<Rightarrow> number" where
  "calculateSortinoRatio returns riskFreeRate =
     (if length returns = 0 then Fin 0
      else
        let avgReturn = reduce_sum (map Fin returns) / Fin (real (length returns));
            downsideReturns = filter (\<lambda>ret. Fin ret < avgReturn) returns
        in if length downsideReturns = 0 then Fin 0
           else
             let downsideVariance =
                   reduce_squares avgReturn (map Fin downsideReturns) / Fin (real (length returns));
                 downsideDeviation = Math_sqrt downsideVariance
             in if strict_eq downsideDeviation (Fin 0) then Fin 0
                else
                  let sortinoRatio = (avgReturn - Fin riskFreeRate) / downsideDeviation
                  in toFixed sortinoRatio 3)"

definition calculateTreynorRatio :: "real list \<Rightarrow> real list \<Rightarrow> real \<Rightarrow> number" where
  "calculateTreynorRatio returns benchmarkReturns riskFreeRate =
     (let beta = calculateBeta returns benchmarkReturns
      in if strict_eq beta (Fin 0) then Fin 0
         else
           let avgReturn = reduce_sum (map Fin returns) / Fin (real (length returns));
               treynorRatio = (avgReturn - Fin riskFreeRate) / beta
           in toFixed treynorRatio 3)"

definition calculateJensensAlpha :: "real list \<Rightarrow> real list \<Rightarrow> real \<Rightarrow> number" where
  "calculateJensensAlpha fundReturns benchmarkReturns riskFreeRate =
     (let beta = calculateBeta fundReturns benchmarkReturns;
          fundAvgReturn = reduce_sum (map Fin fundReturns) / Fin (real (length fundReturns));
          benchmarkAvgReturn = reduce_sum (map Fin benchmarkReturns) / Fin (real (length benchmarkReturns));
          expectedReturn = Fin riskFreeRate + beta * (benchmarkAvgReturn - Fin riskFreeRate);
          alpha = fundAvgReturn - expectedReturn
      in toFixed alpha 2)"

text \<open>
  \<^verbatim>\<open>sortedReturns[index]\<close>: reading an array at a number gives the element when
  the number is an integer within range and \<open>undefined\<close> (here \<open>None\<close>) otherwise.
  Calling \<open>toFixed\<close> on \<open>undefined\<close> throws a \<open>TypeError\<close>. The comparator
  \<^verbatim>\<open>(a, b) => a - b\<close> orders numbers by their value, so the sorted array is the
  ascending sort of the observations.
\<close>

fun array_get :: "real list \<Rightarrow> number \<Rightarrow> real option" where
  "array_get xs (Double k) =
     (if is_integral k \<and> 0 \<le> k \<and> k < real (length xs) then Some (xs ! nat \<lfloor>k\<rfloor>) else None)"
| "array_get xs _ = None"

definition calculateVaR :: "real list \<Rightarrow> real \<Rightarrow> error + number" where
  "calculateVaR returns confidenceLevel =
     (if length returns = 0 then Inr (Fin 0)
      else
        let sortedReturns = sort returns;
            index = Math_floor ((Fin 1 - Fin confidenceLevel) * Fin (real (length returns)))
        in case array_get sortedReturns index of
             None \<Rightarrow> Inl TypeError
           | Some varValue \<Rightarrow> Inr (toFixed (Fin varValue) 2))"

definition calculateCVaR :: "real list \<Rightarrow> real \<Rightarrow> error + number" where
  "calculateCVaR returns confidenceLevel =
     (if length returns = 0 then Inr (Fin 0)
      else
        case calculateVaR returns confidenceLevel of
          Inl e \<Rightarrow> Inl e
        | Inr varValue \<Rightarrow>
            let tailReturns = filter (\<lambda>ret. Fin ret \<le> varValue) returns
            in if length tailReturns = 0 then Inr varValue
               else
                 let cvarValue = reduce_sum (map Fin tailReturns) / Fin (real (length tailReturns))
                 in Inr (toFixed cvarValue 2))"

definition calculateConcentrationRisk :: "real list \<Rightarrow> number" where
  "calculateConcentrationRisk allocations =
     (if length allocations = 0 then Fin 0
      else
        let totalAllocation = reduce_sum (map Fin allocations)
        in if strict_eq totalAllocation (Fin 0) then Fin 0
           else
             let hhi = foldl (\<lambda>sum alloc.
                                let weight = Fin alloc / totalAllocation
                                in sum + Math_pow weight (Fin 2)) (Fin 0) allocations;
                 concentrationRisk = hhi * Fin 100
             in toFixed concentrationRisk 2)"

section \<open>Compliance engine\<close>

text \<open>
  The rows the engine receives. The database declares every column \<open>NOT NULL\<close>:
  texts are strings and amounts are finite numbers, given by their decimal values and read
  by \<open>Fin\<close>. The performance series and the allocations are arrays; where the source
  also tests an array for being absent
  (\<^verbatim>\<open>!performanceData || performanceData.length === 0\<close>), the absent array takes the
  branch of the empty one.
\<close>

record fund =
  fund_type :: string
  management_fee :: real
  expense_ratio :: real
  inception_date :: string

record performance =
  nav :: real
  total_return :: real
  benchmark_return :: real
  assets_under_management :: real

record investment =
  investment_type :: string
  allocation_percentage :: real
  risk_rating :: int

text \<open>
  What the engine reads from its host besides its arguments: \<^verbatim>\<open>new Date()\<close>, through
  \<open>getFullYear()\<close> and \<open>toISOString()\<close>, and the parsing of a date string by
  \<^verbatim>\<open>new Date(s).getFullYear()\<close>, which depends on the host's time zone and gives
  \<open>NaN\<close> (here \<open>None\<close>) for a string that is not a date.
\<close>

record host =
  now_getFullYear :: int
  now_toISOString :: string
  parse_getFullYear :: "string \<Rightarrow> int option"

definition fullYear_number :: "int option \<Rightarrow> number" where
  "fullYear_number y = (case y of Some v \<Rightarrow> Fin (of_int v) | None \<Rightarrow> NaN)"

subsection \<open>Risk score\<close>

definition fundTypeRisk :: "(string \<times> real) list" where
  "fundTypeRisk =
     [(''Fixed Income'', 2),
      (''Balanced'', 4),
      (''Canadian Equity'', 6),
      (''Global Equity'', 7),
      (''Alternative'', 9),
      (''Sector'', 8),
      (''Real Estate'', 7)]"

text \<open>
  \<open>fundTypeRisk\<close> is an object literal, so reading it at a key finds the table's own
  entry or, failing that, a property inherited from \<open>Object.prototype\<close>, whose names are
  listed here; such a property is a function or an object. Only a key that is neither
  reads as \<open>undefined\<close>.
\<close>

definition Object_prototype :: "string list" where
  "Object_prototype =
     [''constructor'', ''__defineGetter__'', ''__defineSetter__'', ''hasOwnProperty'',
      ''__lookupGetter__'', ''__lookupSetter__'', ''isPrototypeOf'', ''propertyIsEnumerable'',
      ''toString'', ''valueOf'', ''__proto__'', ''toLocaleString'']"

datatype property = Own real | Inherited | Undefined

definition get_property :: "(string \<times> real) list \<Rightarrow> string \<Rightarrow> property" where
  "get_property object key =
     (case map_of object key of
        Some v \<Rightarrow> Own v
      | None \<Rightarrow> if key \<in> set Object_prototype then Inherited else Undefined)"

text \<open>
  The variable \<open>riskScore\<close> holds a number, or a text once a function or an object has
  been added to it: \<open>+\<close> on a number and such a value concatenates their texts, and so
  does every later \<open>+=\<close>. The text begins with \<open>0\<close> followed by the source text of
  the function (or \<open>[object Object]\<close>), which is no numeral: \<open>Math.min\<close> converts it
  to \<open>NaN\<close>.
\<close>

datatype js_value = Number number | Text

fun add_assign :: "js_value \<Rightarrow> number \<Rightarrow> js_value" where
  "add_assign (Number x) y = Number (x + y)"
| "add_assign Text y = Text"

fun ToNumber :: "js_value \<Rightarrow> number" where
  "ToNumber (Number x) = x"
| "ToNumber Text = NaN"

text \<open>
  \<^verbatim>\<open>riskScore += fundTypeRisk[fundData.fund_type] || 5\<close>: an own entry that is not
  zero and an inherited property are truthy and are added as they are; \<open>undefined\<close>
  gives way to \<open>5\<close>.
\<close>

definition calculateRiskScore :: "host \<Rightarrow> fund \<Rightarrow> number" where
  "calculateRiskScore h fundData =
     (let riskScore = Number (Fin 0);
          riskScore =
            (case get_property fundTypeRisk (fund_type fundData) of
               Own v \<Rightarrow> if v = 0 then add_assign riskScore (Fin 5) else add_assign riskScore (Fin v)
             | Inherited \<Rightarrow> Text
             | Undefined \<Rightarrow> add_assign riskScore (Fin 5));
          riskScore =
            (if Fin 2.0 < Fin (expense_ratio fundData) then add_assign riskScore (Fin 2)
             else if Fin 1.5 < Fin (expense_ratio fundData) then add_assign riskScore (Fin 1)
             else riskScore);
          fundAge = Fin (of_int (now_getFullYear h))
                    - fullYear_number (parse_getFullYear h (inception_date fundData));
          riskScore =
            (if fundAge < Fin 3 then add_assign riskScore (Fin 2)
             else if fundAge < Fin 5 then add_assign riskScore (Fin 1)
             else riskScore)
      in Math_min (ToNumber riskScore) (Fin 10))"

definition getRiskLevel :: "number \<Rightarrow> string" where
  "getRiskLevel riskScore =
     (if riskScore \<le> Fin 3 then ''Low''
      else if riskScore \<le> Fin 5 then ''Low-Medium''
      else if riskScore \<le> Fin 7 then ''Medium''
      else if riskScore \<le> Fin 9 then ''Medium-High''
      else ''High'')"

subsection \<open>The five checks\<close>

record concentration_violation =
  cv_type :: string
  cv_allocation :: real
  cv_limit :: real

record concentrationLimits_result =
  cl_compliant :: bool
  cl_concentrationRisk :: number
  cl_violations :: "concentration_violation list"
  cl_totalAlternativeAllocation :: number

definition checkConcentrationLimits :: "investment list \<Rightarrow> concentrationLimits_result" where
  "checkConcentrationLimits alternativeInvestments =
     (let maxConcentration = 20;
          totalAllocation =
            foldl (\<lambda>sum inv. sum + Fin (allocation_percentage inv)) (Fin 0) alternativeInvestments;
          violations =
            filter (\<lambda>inv. Fin maxConcentration < Fin (allocation_percentage inv)) alternativeInvestments;
          concentrationRisk =
            calculateConcentrationRisk (map allocation_percentage alternativeInvestments)
      in \<lparr>cl_compliant = (length violations = 0),
          cl_concentrationRisk = concentrationRisk,
          cl_violations =
            map (\<lambda>v. \<lparr>cv_type = investment_type v,
                        cv_allocation = allocation_percentage v,
                        cv_limit = maxConcentration\<rparr>) violations,
          cl_totalAlternativeAllocation = totalAllocation\<rparr>)"

record riskDisclosure_result =
  rd_compliant :: bool
  rd_riskScore :: number
  rd_missingDisclosures :: "string list"
  rd_riskLevel :: string

text \<open>
  \<^verbatim>\<open>!fundData[field]\<close> for the four required fields: an empty text and a zero
  amount count as missing.
\<close>

definition field_missing :: "fund \<Rightarrow> string \<Rightarrow> bool" where
  "field_missing fundData field =
     (if field = ''fund_type'' then fund_type fundData = []
      else if field = ''management_fee'' then strict_eq (Fin (management_fee fundData)) (Fin 0)
      else if field = ''expense_ratio'' then strict_eq (Fin (expense_ratio fundData)) (Fin 0)
      else if field = ''inception_date'' then inception_date fundData = []
      else True)"

definition checkRiskDisclosure :: "host \<Rightarrow> fund \<Rightarrow> riskDisclosure_result" where
  "checkRiskDisclosure h fundData =
     (let requiredDisclosures =
            [''fund_type'', ''management_fee'', ''expense_ratio'', ''inception_date''];
          missingDisclosures = filter (\<lambda>field. field_missing fundData field) requiredDisclosures;
          riskScore = calculateRiskScore h fundData
      in \<lparr>rd_compliant = (length missingDisclosures = 0),
          rd_riskScore = riskScore,
          rd_missingDisclosures = missingDisclosures,
          rd_riskLevel = getRiskLevel riskScore\<rparr>)"

record performanceReporting_result =
  pr_compliant :: bool
  pr_reason :: "string option"
  pr_volatility :: "number option"
  pr_maxDrawdown :: "number option"
  pr_dataPoints :: "nat option"
  pr_hasRequiredPeriods :: "bool option"

definition checkPerformanceReporting :: "performance list \<Rightarrow> performanceReporting_result" where
  "checkPerformanceReporting performanceData =
     (if length performanceData = 0
      then \<lparr>pr_compliant = False,
            pr_reason = Some ''No performance data available'',
            pr_volatility = None, pr_maxDrawdown = None,
            pr_dataPoints = None, pr_hasRequiredPeriods = None\<rparr>
      else
        let hasRequiredPeriods = (12 \<le> length performanceData);
            volatility = calculateVolatility (map (\<lambda>p. Fin (total_return p)) performanceData);
            maxDrawdown = calculateMaxDrawdown (map nav performanceData)
        in \<lparr>pr_compliant = hasRequiredPeriods,
            pr_reason = None,
            pr_volatility = Some volatility,
            pr_maxDrawdown = Some maxDrawdown,
            pr_dataPoints = Some (length performanceData),
            pr_hasRequiredPeriods = Some hasRequiredPeriods\<rparr>)"

text \<open>A fee message, by the breach it reports and the figures it prints.\<close>

datatype fee_violation =
  ManagementFeeExceeds real real
| ExpenseRatioExceeds real real
| TotalFeesExceed number real

record feeDisclosure_result =
  fd_compliant :: bool
  fd_violations :: "fee_violation list"
  fd_totalFees :: number
  fd_managementFee :: real
  fd_expenseRatio :: real

definition checkFeeDisclosure :: "fund \<Rightarrow> feeDisclosure_result" where
  "checkFeeDisclosure fundData =
     (let maxManagementFee = 2.5;
          maxExpenseRatio = 3.0;
          feeViolations = [];
          feeViolations =
            (if Fin maxManagementFee < Fin (management_fee fundData)
             then feeViolations @ [ManagementFeeExceeds (management_fee fundData) maxManagementFee]
             else feeViolations);
          feeViolations =
            (if Fin maxExpenseRatio < Fin (expense_ratio fundData)
             then feeViolations @ [ExpenseRatioExceeds (expense_ratio fundData) maxExpenseRatio]
             else feeViolations);
          totalFees = Fin (management_fee fundData) + Fin (expense_ratio fundData);
          maxTotalFees = 4.0;
          feeViolations =
            (if Fin maxTotalFees < totalFees
             then feeViolations @ [TotalFeesExceed totalFees maxTotalFees]
             else feeViolations)
      in \<lparr>fd_compliant = (length feeViolations = 0),
          fd_violations = feeViolations,
          fd_totalFees = totalFees,
          fd_managementFee = management_fee fundData,
          fd_expenseRatio = expense_ratio fundData\<rparr>)"

definition calculateAverageDailyVolume :: "performance list \<Rightarrow> number" where
  "calculateAverageDailyVolume performanceData =
     (if length performanceData < 2 then Fin 0
      else
        let totalAUM =
              foldl (\<lambda>sum p. sum + Fin (assets_under_management p)) (Fin 0) performanceData;
            avgAUM = totalAUM / Fin (real (length performanceData))
        in avgAUM * Fin 0.01)"

record liquidityRequirements_result =
  lr_compliant :: bool
  lr_reason :: "string option"
  lr_aum :: "real option"
  lr_minAUM :: "real option"
  lr_liquidityRatio :: "number option"
  lr_avgDailyVolume :: "number option"

definition checkLiquidityRequirements :: "fund \<Rightarrow> performance list \<Rightarrow> liquidityRequirements_result" where
  "checkLiquidityRequirements fundData performanceData =
     (if length performanceData = 0
      then \<lparr>lr_compliant = False,
            lr_reason = Some ''Insufficient data for liquidity analysis'',
            lr_aum = None, lr_minAUM = None,
            lr_liquidityRatio = None, lr_avgDailyVolume = None\<rparr>
      else
        let recentAUM =
              assets_under_management (performanceData ! (length performanceData - 1));
            minAUM = 10000000;
            avgDailyVolume = calculateAverageDailyVolume performanceData;
            liquidityRatio = Fin recentAUM / avgDailyVolume
        in \<lparr>lr_compliant = (Fin minAUM \<le> Fin recentAUM \<and> liquidityRatio \<le> Fin 30),
            lr_reason = None,
            lr_aum = Some recentAUM,
            lr_minAUM = Some minAUM,
            lr_liquidityRatio = Some liquidityRatio,
            lr_avgDailyVolume = Some avgDailyVolume\<rparr>)"

subsection \<open>Aggregation\<close>

record complianceChecks =
  concentrationLimits :: concentrationLimits_result
  riskDisclosure :: riskDisclosure_result
  performanceReporting :: performanceReporting_result
  feeDisclosure :: feeDisclosure_result
  liquidityRequirements :: liquidityRequirements_result
  overallCompliant :: bool
  warnings :: "string list"
  violations :: "string list"

definition checkCompliance :: "host \<Rightarrow> fund \<Rightarrow> performance list \<Rightarrow> investment list \<Rightarrow> complianceChecks" where
  "checkCompliance h fundData performanceData alternativeInvestments =
     (let c = \<lparr>concentrationLimits = checkConcentrationLimits alternativeInvestments,
               riskDisclosure = checkRiskDisclosure h fundData,
               performanceReporting = checkPerformanceReporting performanceData,
               feeDisclosure = checkFeeDisclosure fundData,
               liquidityRequirements = checkLiquidityRequirements fundData performanceData,
               overallCompliant = True,
               warnings = [],
               violations = []\<rparr>;
          c = (if \<not> cl_compliant (concentrationLimits c)
               then c\<lparr>overallCompliant := False,
                      violations := violations c @ [''Concentration Limits'']\<rparr>
               else c);
          c = (if \<not> rd_compliant (riskDisclosure c)
               then c\<lparr>warnings := warnings c @ [''Risk Disclosure'']\<rparr>
               else c);
          c = (if \<not> pr_compliant (performanceReporting c)
               then c\<lparr>warnings := warnings c @ [''Performance Reporting'']\<rparr>
               else c);
          c = (if \<not> fd_compliant (feeDisclosure c)
               then c\<lparr>violations := violations c @ [''Fee Disclosure''],
                      overallCompliant := False\<rparr>
               else c);
          c = (if \<not> lr_compliant (liquidityRequirements c)
               then c\<lparr>warnings := warnings c @ [''Liquidity Requirements'']\<rparr>
               else c)
      in c)"

subsection \<open>Report, recommendations and alerts\<close>

record recommendation =
  priority :: string
  category :: string
  action :: string
  deadline :: string

definition generateRecommendations :: "complianceChecks \<Rightarrow> recommendation list" where
  "generateRecommendations complianceData =
     (let recommendations = [];
          recommendations =
            (if \<not> cl_compliant (concentrationLimits complianceData)
             then recommendations @
                  [\<lparr>priority = ''HIGH'',
                    category = ''Concentration Limits'',
                    action = ''Review and rebalance portfolio to meet IIROC concentration limits'',
                    deadline = ''30 days''\<rparr>]
             else recommendations);
          recommendations =
            (if \<not> fd_compliant (feeDisclosure complianceData)
             then recommendations @
                  [\<lparr>priority = ''HIGH'',
                    category = ''Fee Disclosure'',
                    action = ''Review fee structure and ensure compliance with IIROC fee limits'',
                    deadline = ''15 days''\<rparr>]
             else recommendations);
          recommendations =
            (if ''Risk Disclosure'' \<in> set (warnings complianceData)
             then recommendations @
                  [\<lparr>priority = ''MEDIUM'',
                    category = ''Risk Disclosure'',
                    action = ''Update fund documentation with complete risk disclosures'',
                    deadline = ''60 days''\<rparr>]
             else recommendations);
          recommendations =
            (if ''Liquidity Requirements'' \<in> set (warnings complianceData)
             then recommendations @
                  [\<lparr>priority = ''MEDIUM'',
                    category = ''Liquidity'',
                    action = ''Monitor liquidity ratios and consider portfolio adjustments'',
                    deadline = ''90 days''\<rparr>]
             else recommendations)
      in recommendations)"

record report_summary =
  totalChecks :: nat
  passedChecks :: nat
  summary_warnings :: nat
  summary_violations :: nat

record 'id complianceReport =
  fundId :: 'id
  reportDate :: string
  complianceStatus :: string
  summary :: report_summary
  details :: complianceChecks
  recommendations :: "recommendation list"

text \<open>
  \<^verbatim>\<open>Object.values(complianceData).filter(check => typeof check === 'object' &&
  check.compliant === true)\<close>: of the eight values, the flag is no object and the two
  arrays have no \<open>compliant\<close> property, so the five check results remain.
\<close>

definition compliant_flags :: "complianceChecks \<Rightarrow> bool list" where
  "compliant_flags complianceData =
     [cl_compliant (concentrationLimits complianceData),
      rd_compliant (riskDisclosure complianceData),
      pr_compliant (performanceReporting complianceData),
      fd_compliant (feeDisclosure complianceData),
      lr_compliant (liquidityRequirements complianceData)]"

definition generateComplianceReport :: "host \<Rightarrow> 'id \<Rightarrow> complianceChecks \<Rightarrow> 'id complianceReport" where
  "generateComplianceReport h fundId' complianceData =
     \<lparr>fundId = fundId',
      reportDate = now_toISOString h,
      complianceStatus =
        (if overallCompliant complianceData then ''COMPLIANT'' else ''NON-COMPLIANT''),
      summary =
        \<lparr>totalChecks = 5,
         passedChecks = length (filter (\<lambda>compliant. compliant = True) (compliant_flags complianceData)),
         summary_warnings = length (warnings complianceData),
         summary_violations = length (violations complianceData)\<rparr>,
      details = complianceData,
      recommendations = generateRecommendations complianceData\<rparr>"

text \<open>An alert's message, by the figure it prints.\<close>

datatype alert_message =
  VolatilityExceeds number
| ExpenseRatioAbove real
| NewFund

record alert =
  alert_type :: string
  severity :: string
  message :: alert_message
  threshold :: real

definition checkRegulatoryAlerts :: "host \<Rightarrow> fund \<Rightarrow> performance list \<Rightarrow> alert list" where
  "checkRegulatoryAlerts h fundData performanceData =
     (let alerts = [];
          alerts =
            (if 0 < length performanceData
             then
               let volatility = calculateVolatility (map (\<lambda>p. Fin (total_return p)) performanceData)
               in if Fin 25 < volatility
                  then alerts @
                       [\<lparr>alert_type = ''HIGH_VOLATILITY'',
                         severity = ''WARNING'',
                         message = VolatilityExceeds (toFixed volatility 2),
                         threshold = 25\<rparr>]
                  else alerts
             else alerts);
          alerts =
            (if Fin 2.0 < Fin (expense_ratio fundData)
             then alerts @
                  [\<lparr>alert_type = ''HIGH_FEES'',
                    severity = ''WARNING'',
                    message = ExpenseRatioAbove (expense_ratio fundData),
                    threshold = 2.0\<rparr>]
             else alerts);
          fundAge = Fin (of_int (now_getFullYear h))
                    - fullYear_number (parse_getFullYear h (inception_date fundData));
          alerts =
            (if fundAge < Fin 1
             then alerts @
                  [\<lparr>alert_type = ''NEW_FUND'',
                    severity = ''INFO'',
                    message = NewFund,
                    threshold = 1\<rparr>]
             else alerts)
      in alerts)"

section \<open>The specification's formulas\<close>

text \<open>
  Definitions written from the words of the specification, for comparison with the
  functions above.
\<close>

text \<open>
  AnnualizedReturn: compound the period returns as the product of \<open>1 + r / 100\<close>, raise
  the product to the power \<open>12 / periodCount\<close> and subtract one, as a percentage with two
  decimals; zero for the empty sequence.
\<close>

definition spec_AnnualizedReturn :: "real list \<Rightarrow> real \<Rightarrow> number" where
  "spec_AnnualizedReturn periodReturns periodCount =
     (if periodReturns = [] then Fin 0
      else
        let compounded = foldl (\<lambda>product r. product * (Fin 1 + Fin r / Fin 100)) (Fin 1) periodReturns
        in toFixed ((Math_pow compounded (Fin 12 / Fin periodCount) - Fin 1) * Fin 100) 2)"

text \<open>
  InformationRatio: the mean of the pairwise excess returns divided by the volatility of
  the excess returns at full precision, rounded to three decimals as the final step only;
  zero on a length mismatch, on empty input and when the tracking error is zero.
\<close>

definition spec_InformationRatio :: "real list \<Rightarrow> real list \<Rightarrow> number" where
  "spec_InformationRatio returns benchmarkReturns =
     (if length returns \<noteq> length benchmarkReturns \<or> returns = [] then Fin 0
      else
        let excess = map (\<lambda>(r, b). r - b) (zip returns benchmarkReturns);
            n = real (length excess);
            mean = sum_list excess / n;
            trackingError = sqrt ((\<Sum>x\<leftarrow>excess. (x - mean)\<^sup>2) / n)
        in if trackingError = 0 then Fin 0
           else toFixed (Fin (mean / trackingError)) 3)"

text \<open>
  The risk score's base table: Fixed Income 2, Balanced 4, Canadian Equity 6, Global
  Equity 7, Real Estate 7, Sector 8, Alternative 9, any other type 5.
\<close>

definition spec_baseScore :: "string \<Rightarrow> int" where
  "spec_baseScore t =
     (if t = ''Fixed Income'' then 2
      else if t = ''Balanced'' then 4
      else if t = ''Canadian Equity'' then 6
      else if t = ''Global Equity'' then 7
      else if t = ''Real Estate'' then 7
      else if t = ''Sector'' then 8
      else if t = ''Alternative'' then 9
      else 5)"

text \<open>
  The risk score's add-ons: for fees, 2 above an expense ratio of 2.0, else 1 above 1.5;
  for a fund age in years, 2 below 3, else 1 below 5. The expense ratio and the age are
  numbers; an age that is \<open>NaN\<close> is below nothing.
\<close>

definition spec_feeAddOn :: "number \<Rightarrow> int" where
  "spec_feeAddOn expenseRatio =
     (if Fin 2.0 < expenseRatio then 2 else if Fin 1.5 < expenseRatio then 1 else 0)"

definition spec_ageAddOn :: "number \<Rightarrow> int" where
  "spec_ageAddOn fundAge = (if fundAge < Fin 3 then 2 else if fundAge < Fin 5 then 1 else 0)"

section \<open>Auxiliary notions\<close>

text \<open>
  The fund's age as the engine computes it: the host's current year minus the year the
  host reads from the inception date.
\<close>

definition fundAge :: "host \<Rightarrow> fund \<Rightarrow> number" where
  "fundAge h fundData =
     Fin (of_int (now_getFullYear h))
     - fullYear_number (parse_getFullYear h (inception_date fundData))"

text \<open>The name a failed check contributes to a list of the verdict.\<close>

definition fails :: "bool \<Rightarrow> string \<Rightarrow> string list" where
  "fails compliant name = (if compliant then [] else [name])"

section \<open>Rounding to the nearest double\<close>

declare Math_pow.simps [simp del]

lemma round_to_even_of_int [simp]: "round_to_even (of_int m) = m"
  by (simp add: round_to_even_def)

lemma round_to_even_zero [simp]: "round_to_even 0 = 0"
  by (simp add: round_to_even_def)

lemma round_to_even_close: "\<bar>of_int (round_to_even y) - y\<bar> \<le> 1 / 2"
  unfolding round_to_even_def Let_def by (auto; linarith)

lemma round_to_even_eqI:
  assumes "\<bar>y - of_int m\<bar> < 1 / 2"
  shows "round_to_even y = m"
proof -
  define k where "k = round_to_even y"
  have "\<bar>of_int k - y\<bar> \<le> 1 / 2" unfolding k_def by (rule round_to_even_close)
  then have "\<bar>(of_int k :: real) - of_int m\<bar> < 1" using assms by linarith
  then have "(of_int \<bar>k - m\<bar> :: real) < of_int 1" by simp
  then have "\<bar>k - m\<bar> < 1" by (simp only: of_int_less_iff)
  then show ?thesis unfolding k_def by simp
qed

lemma round_to_even_le: "y \<le> of_int m \<Longrightarrow> round_to_even y \<le> m"
  using round_to_even_close [of y] by linarith

lemma round_to_even_ge: "of_int m \<le> y \<Longrightarrow> m \<le> round_to_even y"
  using round_to_even_close [of y] by linarith

lemma round_to_even_mono:
  assumes "x \<le> y"
  shows "round_to_even x \<le> round_to_even y"
proof (cases "\<lfloor>x\<rfloor> = \<lfloor>y\<rfloor>")
  case True
  then show ?thesis using assms unfolding round_to_even_def Let_def by (auto; linarith)
next
  case False
  then have "\<lfloor>x\<rfloor> < \<lfloor>y\<rfloor>" using assms floor_mono [of x y] by linarith
  moreover have "round_to_even x \<le> \<lfloor>x\<rfloor> + 1" unfolding round_to_even_def Let_def by auto
  moreover have "\<lfloor>y\<rfloor> \<le> round_to_even y" unfolding round_to_even_def Let_def by auto
  ultimately show ?thesis by linarith
qed

lemma round_to_even_minus: "round_to_even (- x) = - round_to_even x"
proof (cases "x = of_int \<lfloor>x\<rfloor>")
  case True
  then obtain m where "x = of_int m" by blast
  then have "- x = of_int (- m)" by simp
  then show ?thesis using \<open>x = of_int m\<close> by (simp only: round_to_even_of_int)
next
  case False
  then have lt: "of_int \<lfloor>x\<rfloor> < x" by linarith
  have "\<lfloor>- x\<rfloor> = - \<lfloor>x\<rfloor> - 1"
    using lt by (intro floor_unique) (simp; linarith)+
  then show ?thesis using lt unfolding round_to_even_def Let_def
    by (auto; linarith)
qed

lemma powi2_less_D: "(2::real) powi a < 2 powi b \<Longrightarrow> a < b"
  using power_int_increasing [of b a "2::real"] by (cases "a < b") auto

lemma powi2_le: "a \<le> b \<Longrightarrow> (2::real) powi a \<le> 2 powi b"
  by (rule power_int_increasing) simp_all

lemma powi2_shift:
  "(2::real) powi (e - 52) * 2 ^ 53 = 2 powi (e + 1)"
  "(2::real) powi (e - 52) * 2 ^ 52 = 2 powi e"
proof -
  have "(2::real) powi (e - 52 + 53) = 2 powi (e - 52) * 2 powi 53"
    by (rule power_int_add) simp
  moreover have "e - 52 + 53 = e + 1" by simp
  ultimately show "(2::real) powi (e - 52) * 2 ^ 53 = 2 powi (e + 1)"
    by (simp only: power_int_numeral)
  have "(2::real) powi (e - 52 + 52) = 2 powi (e - 52) * 2 powi 52"
    by (rule power_int_add) simp
  moreover have "e - 52 + 52 = e" by simp
  ultimately show "(2::real) powi (e - 52) * 2 ^ 52 = 2 powi e"
    by (simp only: power_int_numeral)
qed

lemma floor_log2_bounds:
  assumes "0 < x"
  shows "2 powi \<lfloor>log 2 x\<rfloor> \<le> x" "x < 2 powi (\<lfloor>log 2 x\<rfloor> + 1)"
proof -
  define e where "e = \<lfloor>log 2 x\<rfloor>"
  have p1: "(2::real) powr (of_int e) = 2 powi e" by (simp add: powr_real_of_int')
  have "(2::real) powr (of_int (e + 1)) = 2 powi (e + 1)"
    using powr_real_of_int' [of 2 "e + 1"] by simp
  then have p2: "(2::real) powr (of_int e + 1) = 2 powi (e + 1)" by simp
  have "2 powr (of_int e) \<le> x \<and> x < 2 powr (of_int e + 1)"
    using assms floor_log_eq_powr_iff [of x 2 e] by (simp add: e_def)
  then have "2 powi e \<le> x \<and> x < 2 powi (e + 1)" by (simp only: p1 p2)
  then show "2 powi \<lfloor>log 2 x\<rfloor> \<le> x" "x < 2 powi (\<lfloor>log 2 x\<rfloor> + 1)"
    unfolding e_def by simp_all
qed

lemma floor_log2_eqI:
  assumes "2 powi e \<le> x" "x < 2 powi (e + 1)"
  shows "\<lfloor>log 2 x\<rfloor> = e"
proof -
  have "0 < (2::real) powi e" by simp
  then have pos: "0 < x" using assms(1) by linarith
  have p1: "(2::real) powr (of_int e) = 2 powi e" by (simp add: powr_real_of_int')
  have "(2::real) powr (of_int (e + 1)) = 2 powi (e + 1)"
    using powr_real_of_int' [of 2 "e + 1"] by simp
  then have p2: "(2::real) powr (of_int e + 1) = 2 powi (e + 1)" by simp
  show ?thesis using assms pos by (subst floor_log_eq_powr_iff) (simp_all add: p1 p2)
qed

lemma binade_eqI:
  assumes "2 powi e \<le> \<bar>x\<bar>" "\<bar>x\<bar> < 2 powi (e + 1)" "- 1022 \<le> e"
  shows "binade x = e"
proof -
  have "0 < (2::real) powi e" by simp
  then have "0 < \<bar>x\<bar>" using assms(1) by linarith
  then have "x \<noteq> 0" by auto
  then show ?thesis using floor_log2_eqI [OF assms(1,2)] assms(3) by (simp add: binade_def)
qed

lemma binade_abs [simp]: "binade \<bar>x\<bar> = binade x" "binade (- x) = binade x"
  by (simp_all add: binade_def)

lemma binade_ge: "- 1022 \<le> binade x"
  by (simp add: binade_def)

lemma ulp_pos: "0 < ulp x"
  by (simp add: ulp_def)

lemma ulp_minus [simp]: "ulp (- x) = ulp x"
  by (simp add: ulp_def)

lemma nearest_zero [simp]: "nearest 0 = 0"
  by (simp add: nearest_def)

lemma nearest_minus: "nearest (- x) = - nearest x"
  by (simp add: nearest_def round_to_even_minus)

text \<open>Below \<open>2^(binade x + 1)\<close>, and from \<open>2^(binade x)\<close> on the normal range.\<close>

lemma below_next_binade: "\<bar>x\<bar> < 2 powi (binade x + 1)"
proof (cases "x = 0")
  case True
  then show ?thesis by simp
next
  case False
  then have pos: "0 < \<bar>x\<bar>" by simp
  have "\<bar>x\<bar> < 2 powi (\<lfloor>log 2 \<bar>x\<bar>\<rfloor> + 1)" using floor_log2_bounds(2) [OF pos] .
  also have "\<dots> \<le> 2 powi (binade x + 1)" using False by (intro powi2_le) (simp add: binade_def)
  finally show ?thesis .
qed

lemma above_binade: "- 1022 < binade x \<Longrightarrow> 2 powi (binade x) \<le> \<bar>x\<bar>"
proof -
  assume a: "- 1022 < binade x"
  then have nz: "x \<noteq> 0" by (auto simp add: binade_def)
  then have b: "binade x = \<lfloor>log 2 \<bar>x\<bar>\<rfloor>" using a by (simp add: binade_def max_def split: if_splits)
  have pos: "0 < \<bar>x\<bar>" using nz by simp
  show ?thesis using floor_log2_bounds(1) [OF pos] b by simp
qed

lemma binade_mono: "\<bar>x\<bar> \<le> \<bar>y\<bar> \<Longrightarrow> x \<noteq> 0 \<Longrightarrow> binade x \<le> binade y"
proof -
  assume a: "\<bar>x\<bar> \<le> \<bar>y\<bar>" "x \<noteq> 0"
  then have y: "y \<noteq> 0" by auto
  have "log 2 \<bar>x\<bar> \<le> log 2 \<bar>y\<bar>" using a by simp
  then have "\<lfloor>log 2 \<bar>x\<bar>\<rfloor> \<le> \<lfloor>log 2 \<bar>y\<bar>\<rfloor>" by (rule floor_mono)
  then show ?thesis using a(2) y by (simp add: binade_def)
qed

lemma nearest_bounds:
  assumes "0 < x"
  shows "0 \<le> nearest x" "nearest x \<le> 2 powi (binade x + 1)"
    "- 1022 < binade x \<Longrightarrow> 2 powi (binade x) \<le> nearest x"
proof -
  have u: "0 < ulp x" by (rule ulp_pos)
  have "of_int 0 \<le> x / ulp x" using assms u by simp
  then have "0 \<le> round_to_even (x / ulp x)" by (rule round_to_even_ge)
  then show "0 \<le> nearest x" using u by (simp add: nearest_def)
  have "x < 2 powi (binade x + 1)" using below_next_binade [of x] assms by simp
  also have "\<dots> = ulp x * 2 ^ 53" by (simp only: ulp_def powi2_shift)
  finally have "x / ulp x < 2 ^ 53" using u by (simp add: pos_divide_less_eq mult.commute)
  then have "x / ulp x \<le> of_int (2 ^ 53)" by simp
  then have "round_to_even (x / ulp x) \<le> 2 ^ 53" by (rule round_to_even_le)
  then have "(of_int (round_to_even (x / ulp x)) :: real) \<le> of_int (2 ^ 53)"
    by (simp only: of_int_le_iff)
  then have "of_int (round_to_even (x / ulp x)) * ulp x \<le> 2 ^ 53 * ulp x"
    using u by (intro mult_right_mono) simp_all
  also have "\<dots> = 2 powi (binade x + 1)"
    using powi2_shift(1) [of "binade x"] by (simp only: ulp_def mult.commute)
  finally show "nearest x \<le> 2 powi (binade x + 1)" by (simp add: nearest_def)
  show "2 powi (binade x) \<le> nearest x" if n: "- 1022 < binade x"
  proof -
    have "2 powi (binade x) \<le> x" using above_binade [OF n] assms by simp
    moreover have "2 powi (binade x) = ulp x * 2 ^ 52" by (simp only: ulp_def powi2_shift)
    ultimately have "2 ^ 52 \<le> x / ulp x" using u by (simp add: pos_le_divide_eq mult.commute)
    then have "of_int (2 ^ 52) \<le> x / ulp x" by simp
    then have "2 ^ 52 \<le> round_to_even (x / ulp x)" by (rule round_to_even_ge)
    then have "(of_int (2 ^ 52) :: real) \<le> of_int (round_to_even (x / ulp x))"
      by (simp only: of_int_le_iff)
    then have "2 ^ 52 * ulp x \<le> of_int (round_to_even (x / ulp x)) * ulp x"
      using u by (intro mult_right_mono) simp_all
    moreover have "2 ^ 52 * ulp x = 2 powi (binade x)"
      using powi2_shift(2) [of "binade x"] by (simp only: ulp_def mult.commute)
    ultimately show ?thesis by (simp add: nearest_def)
  qed
qed

lemma nearest_mono_pos:
  assumes "0 < x" "x \<le> y"
  shows "nearest x \<le> nearest y"
proof (cases "binade x = binade y")
  case True
  then have u: "ulp x = ulp y" by (simp add: ulp_def)
  have "x / ulp y \<le> y / ulp y" using assms ulp_pos [of y] by (simp add: divide_right_mono)
  then have "round_to_even (x / ulp y) \<le> round_to_even (y / ulp y)" by (rule round_to_even_mono)
  then have "(of_int (round_to_even (x / ulp y)) :: real) \<le> of_int (round_to_even (y / ulp y))"
    by (simp only: of_int_le_iff)
  then show ?thesis using ulp_pos [of y] by (simp add: nearest_def u mult_right_mono)
next
  case False
  have "binade x \<le> binade y" using assms by (intro binade_mono) simp_all
  then have lt: "binade x < binade y" using False by simp
  then have n: "- 1022 < binade y" using binade_ge [of x] by linarith
  have "nearest x \<le> 2 powi (binade x + 1)" using nearest_bounds(2) assms by simp
  also have "\<dots> \<le> 2 powi (binade y)" using lt by (intro powi2_le) simp
  also have "\<dots> \<le> nearest y" using nearest_bounds(3) [of y] n assms by simp
  finally show ?thesis .
qed

lemma nearest_mono:
  assumes "x \<le> y"
  shows "nearest x \<le> nearest y"
proof -
  consider "0 < x" | "x \<le> 0" "0 \<le> y" | "y < 0" by linarith
  then show ?thesis
  proof cases
    case 1
    then show ?thesis using assms by (rule nearest_mono_pos)
  next
    case 2
    have "nearest x \<le> 0"
    proof (cases "x = 0")
      case True
      then show ?thesis by simp
    next
      case False
      then have "0 \<le> nearest (- x)" using 2 by (intro nearest_bounds(1)) simp
      then show ?thesis by (simp add: nearest_minus)
    qed
    moreover have "0 \<le> nearest y"
    proof (cases "y = 0")
      case True
      then show ?thesis by simp
    next
      case False
      then show ?thesis using 2 by (intro nearest_bounds(1)) simp
    qed
    ultimately show ?thesis by linarith
  next
    case 3
    then have "nearest (- y) \<le> nearest (- x)" using assms by (intro nearest_mono_pos) simp_all
    then show ?thesis by (simp add: nearest_minus)
  qed
qed

text \<open>A multiple of its own spacing is its own rounding.\<close>

lemma nearest_grid:
  assumes "x = of_int k * 2 powi j" "binade x - 52 \<le> j"
  shows "nearest x = x"
proof -
  define i where "i = binade x - 52"
  define n where "n = nat (j - i)"
  define u :: real where "u = 2 powi i"
  have u_pos: "0 < u" by (simp add: u_def)
  have "(2::real) powi (i + (j - i)) = 2 powi i * 2 powi (j - i)"
    by (rule power_int_add) simp
  moreover have "(2::real) powi (j - i) = 2 ^ n"
    using assms(2) by (simp add: n_def i_def power_int_def)
  ultimately have j: "(2::real) powi j = u * 2 ^ n" by (simp add: u_def)
  have "of_int k * 2 powi j / u = of_int (k * 2 ^ n)" using u_pos by (simp add: j)
  then have "round_to_even (of_int k * 2 powi j / u) = k * 2 ^ n"
    by (simp only: round_to_even_of_int)
  then have "of_int (round_to_even (of_int k * 2 powi j / u)) * u = of_int k * 2 powi j"
    by (simp add: j)
  then have "of_int (round_to_even (x / u)) * u = x" by (simp only: assms(1) [symmetric])
  then show ?thesis by (simp only: nearest_def ulp_def i_def [symmetric] u_def [symmetric])
qed

lemma nearest_idem: "nearest (nearest x) = nearest x"
proof -
  have pos: "nearest (nearest x) = nearest x" if x: "0 < x" for x
  proof -
    define k where "k = round_to_even (x / ulp x)"
    define j where "j = binade x - 52"
    have y: "nearest x = of_int k * 2 powi j" by (simp add: nearest_def k_def j_def ulp_def)
    have ub: "nearest x \<le> 2 powi (binade x + 1)" using nearest_bounds(2) [OF x] .
    have nn: "0 \<le> nearest x" using nearest_bounds(1) [OF x] .
    show ?thesis
    proof (cases "nearest x = 2 powi (binade x + 1)")
      case True
      have b: "binade (nearest x) = binade x + 1"
      proof (rule binade_eqI)
        show "2 powi (binade x + 1) \<le> \<bar>nearest x\<bar>" using True by simp
        have "(2::real) powi (binade x + 1) < 2 powi (binade x + 1 + 1)"
          by (intro power_int_strict_increasing) simp_all
        then show "\<bar>nearest x\<bar> < 2 powi (binade x + 1 + 1)" using True by simp
        show "- 1022 \<le> binade x + 1" using binade_ge [of x] by linarith
      qed
      have "nearest x = of_int 1 * 2 powi (binade x + 1)" using True by simp
      then show ?thesis by (rule nearest_grid) (simp add: b)
    next
      case False
      then have lt: "nearest x < 2 powi (binade x + 1)" using ub by linarith
      have "binade (nearest x) \<le> binade x"
      proof (cases "nearest x = 0")
        case True
        then show ?thesis using binade_ge [of x] by (simp add: binade_def)
      next
        case nz: False
        then have p: "0 < \<bar>nearest x\<bar>" by simp
        have "2 powi \<lfloor>log 2 \<bar>nearest x\<bar>\<rfloor> \<le> \<bar>nearest x\<bar>" using floor_log2_bounds(1) [OF p] .
        also have "\<dots> < 2 powi (binade x + 1)" using lt nn by simp
        finally have "\<lfloor>log 2 \<bar>nearest x\<bar>\<rfloor> < binade x + 1" by (rule powi2_less_D)
        then show ?thesis using binade_ge [of x] nz by (simp add: binade_def)
      qed
      then show ?thesis using y by (intro nearest_grid [of _ k j]) (simp_all add: j_def)
    qed
  qed
  consider "0 < x" | "x = 0" | "x < 0" by linarith
  then show ?thesis
  proof cases
    case 1
    then show ?thesis by (rule pos)
  next
    case 2
    then show ?thesis by simp
  next
    case 3
    then have "nearest (nearest (- x)) = nearest (- x)" by (intro pos) simp
    then show ?thesis by (simp add: nearest_minus)
  qed
qed

text \<open>The doubles are the finite values of \<open>Fin\<close>; \<open>Fin\<close> leaves them as they are.\<close>

lemma Fin_Double_iff: "Fin x = Double y \<longleftrightarrow> nearest x = y \<and> \<bar>y\<bar> < 2 ^ 1024"
proof (cases "(2::real) ^ 1024 \<le> \<bar>nearest x\<bar>")
  case True
  then have "Fin x = PInf \<or> Fin x = NInf" unfolding Fin_def by (simp only: if_True) metis
  then show ?thesis using True by fastforce
next
  case False
  then have "Fin x = Double (nearest x)" unfolding Fin_def by (simp only: if_False)
  then show ?thesis using False by fastforce
qed

lemma Fin_idem: "Fin x = Double y \<Longrightarrow> Fin y = Double y"
  using nearest_idem [of x] by (auto simp add: Fin_Double_iff)

lemma Fin_not_NaN [simp]: "Fin x \<noteq> NaN"
  by (simp add: Fin_def)

lemma Fin_between:
  assumes a: "Fin a = Double a" and b: "Fin b = Double b" and "a \<le> x" "x \<le> b"
  shows "\<exists>y. Fin x = Double y \<and> a \<le> y \<and> y \<le> b"
proof -
  have A: "nearest a = a" "\<bar>a\<bar> < 2 ^ 1024" using a by (simp_all add: Fin_Double_iff)
  have B: "nearest b = b" "\<bar>b\<bar> < 2 ^ 1024" using b by (simp_all add: Fin_Double_iff)
  have 1: "a \<le> nearest x" using nearest_mono [OF assms(3)] A(1) by simp
  have 2: "nearest x \<le> b" using nearest_mono [OF assms(4)] B(1) by simp
  have "\<bar>nearest x\<bar> < 2 ^ 1024" using 1 2 A(2) B(2) by linarith
  then show ?thesis using 1 2 by (simp add: Fin_Double_iff)
qed

lemma nearest_abs_le: "\<bar>nearest x\<bar> \<le> 2 powi (binade x + 1)"
proof -
  consider "0 < x" | "x = 0" | "x < 0" by linarith
  then show ?thesis
  proof cases
    case 1
    then show ?thesis using nearest_bounds(1,2) [of x] by simp
  next
    case 2
    then show ?thesis by simp
  next
    case 3
    then have "0 \<le> nearest (- x)" "nearest (- x) \<le> 2 powi (binade (- x) + 1)"
      using nearest_bounds(1,2) [of "- x"] by simp_all
    then show ?thesis by (simp add: nearest_minus)
  qed
qed

text \<open>The rounding of a real whose binade is known.\<close>

lemma Fin_eval:
  assumes lo: "2 powi e \<le> \<bar>x\<bar>" and hi: "\<bar>x\<bar> < 2 powi (e + 1)"
    and e: "- 1022 \<le> e" "e \<le> 1022"
  shows "Fin x = Double (of_int (round_to_even (x / 2 powi (e - 52))) * 2 powi (e - 52))"
proof -
  have b: "binade x = e" using lo hi e(1) by (rule binade_eqI)
  have "\<bar>nearest x\<bar> \<le> 2 powi (e + 1)" using nearest_abs_le [of x] by (simp only: b)
  also have "\<dots> \<le> 2 powi 1023" using e(2) by (intro powi2_le) simp
  also have "\<dots> < (2::real) ^ 1024" by simp
  finally have "\<bar>nearest x\<bar> < 2 ^ 1024" .
  then have "Fin x = Double (nearest x)" by (simp add: Fin_Double_iff)
  then show ?thesis by (simp only: nearest_def ulp_def b)
qed

lemma Fin_zero [simp]: "Fin 0 = Double 0"
  by (simp add: Fin_Double_iff)

lemma Fin_of_int:
  assumes "\<bar>k\<bar> < 2 ^ 53"
  shows "Fin (of_int k) = Double (of_int k)"
proof -
  define x :: real where "x = of_int k"
  have "(of_int \<bar>k\<bar> :: real) < of_int (2 ^ 53)" using assms by (simp only: of_int_less_iff)
  then have small: "\<bar>x\<bar> < 2 ^ 53" by (simp add: x_def)
  have "binade x \<le> 52"
  proof (cases "x = 0")
    case True
    then show ?thesis by (simp add: binade_def)
  next
    case False
    then have pos: "0 < \<bar>x\<bar>" by simp
    have "2 powi \<lfloor>log 2 \<bar>x\<bar>\<rfloor> \<le> \<bar>x\<bar>" using floor_log2_bounds(1) [OF pos] .
    also have "\<dots> < 2 powi 53" using small by simp
    finally have "\<lfloor>log 2 \<bar>x\<bar>\<rfloor> < 53" by (rule powi2_less_D)
    then show ?thesis using False by (simp add: binade_def)
  qed
  moreover have "x = of_int k * 2 powi 0" by (simp add: x_def)
  ultimately have "nearest x = x" by (intro nearest_grid [of x k 0]) simp_all
  moreover have "\<bar>x\<bar> < 2 ^ 1024" using small by simp
  ultimately show ?thesis unfolding x_def [symmetric] by (simp add: Fin_Double_iff)
qed

lemma Fin_numeral [simp]: "numeral n < (2::real) ^ 53 \<Longrightarrow> Fin (numeral n) = Double (numeral n)"
  using Fin_of_int [of "numeral n"] by simp

lemma Fin_one [simp]: "Fin 1 = Double 1"
  using Fin_of_int [of 1] by simp

lemma Fin_neg_numeral [simp]: "numeral n < (2::real) ^ 53 \<Longrightarrow> Fin (- numeral n) = Double (- numeral n)"
  using Fin_of_int [of "- numeral n"] by simp

lemma Fin_minus_one [simp]: "Fin (- 1) = Double (- 1)"
  using Fin_of_int [of "- 1"] by simp

lemma Fin_of_nat: "n < 2 ^ 53 \<Longrightarrow> Fin (real n) = Double (real n)"
  using Fin_of_int [of "int n"] by simp

lemma nearest_power_of_two:
  assumes "- 1022 \<le> j"
  shows "nearest (2 powi j) = 2 powi j"
proof -
  have "(2::real) powi j < 2 powi (j + 1)" by (intro power_int_strict_increasing) simp_all
  then have "binade (2 powi j) = j" using assms by (intro binade_eqI) simp_all
  moreover have "(2::real) powi j = of_int 1 * 2 powi j" by simp
  ultimately show ?thesis by (intro nearest_grid [of _ 1 j]) simp_all
qed

text \<open>A real of magnitude \<open>2^1024\<close> or more rounds to an infinity.\<close>

lemma Fin_overflow:
  assumes "2 ^ 1024 \<le> x"
  shows "Fin x = PInf"
proof -
  have "nearest (2 powi 1024) = 2 powi 1024" by (rule nearest_power_of_two) simp
  then have "nearest ((2::real) ^ 1024) = 2 ^ 1024" by simp
  then have "2 ^ 1024 \<le> nearest x" using nearest_mono [OF assms] by simp
  moreover have "0 < x" using assms by (rule less_le_trans [rotated]) simp
  ultimately show ?thesis by (simp add: Fin_def)
qed

text \<open>On the normal range rounding has a relative error of at most \<open>2^-53\<close>.\<close>

lemma Fin_rel_error:
  assumes "2 powi (- 1022) \<le> \<bar>x\<bar>" "\<bar>x\<bar> < 2 powi 1023"
  shows "\<exists>y. Fin x = Double y \<and> \<bar>y - x\<bar> \<le> \<bar>x\<bar> / 2 ^ 53"
proof -
  define e where "e = \<lfloor>log 2 \<bar>x\<bar>\<rfloor>"
  define u :: real where "u = 2 powi (e - 52)"
  have "0 < (2::real) powi (- 1022)" by simp
  then have xpos: "0 < \<bar>x\<bar>" using assms(1) by linarith
  have lo: "2 powi e \<le> \<bar>x\<bar>" and hi: "\<bar>x\<bar> < 2 powi (e + 1)"
    using floor_log2_bounds [OF xpos] by (simp_all add: e_def)
  have "(2::real) powi (- 1022) < 2 powi (e + 1)" using assms(1) hi by linarith
  then have e1: "- 1022 \<le> e" using powi2_less_D [of "- 1022" "e + 1"] by simp
  have "(2::real) powi e < 2 powi 1023" using assms(2) lo by linarith
  then have e2: "e \<le> 1022" using powi2_less_D [of e 1023] by simp
  define y where "y = of_int (round_to_even (x / u)) * u"
  have F: "Fin x = Double y" using Fin_eval [OF lo hi e1 e2] by (simp add: y_def u_def)
  have u_pos: "0 < u" by (simp add: u_def)
  have "y - x = (of_int (round_to_even (x / u)) - x / u) * u"
    using u_pos by (simp add: y_def algebra_simps)
  then have "\<bar>y - x\<bar> = \<bar>of_int (round_to_even (x / u)) - x / u\<bar> * u"
    using u_pos by (simp add: abs_mult)
  also have "\<dots> \<le> 1 / 2 * u"
    using round_to_even_close [of "x / u"] u_pos by (intro mult_right_mono) simp_all
  also have "\<dots> = 2 powi e / 2 ^ 53"
    using powi2_shift(2) [of e] by (simp add: u_def field_simps)
  also have "\<dots> \<le> \<bar>x\<bar> / 2 ^ 53" using lo by (simp add: divide_right_mono)
  finally show ?thesis using F by blast
qed

text \<open>
  The rounding of a square root, from the squares of the two midpoints around the
  result.
\<close>

lemma Fin_sqrt_eval:
  assumes m: "2 ^ 52 < m" "m < 2 ^ 53" and e: "- 1022 \<le> e" "e \<le> 1022"
    and lo: "((of_int m - 1 / 2) * 2 powi (e - 52))\<^sup>2 < v"
    and hi: "v < ((of_int m + 1 / 2) * 2 powi (e - 52))\<^sup>2"
  shows "Fin (sqrt v) = Double (of_int m * 2 powi (e - 52))"
proof -
  define u :: real where "u = 2 powi (e - 52)"
  have u_pos: "0 < u" by (simp add: u_def)
  have "(of_int (2 ^ 52) :: real) < of_int m" "(of_int m :: real) < of_int (2 ^ 53)"
    using m by (simp_all only: of_int_less_iff)
  then have mr: "(2::real) ^ 52 < of_int m" "of_int m < (2::real) ^ 53" by simp_all
  have "(of_int (2 ^ 52 + 1) :: real) \<le> of_int m" "(of_int m :: real) \<le> of_int (2 ^ 53 - 1)"
    using m by (simp_all only: of_int_le_iff)
  then have mr': "(2::real) ^ 52 + 1 \<le> of_int m" "of_int m \<le> (2::real) ^ 53 - 1" by simp_all
  have a0: "0 \<le> (of_int m - 1 / 2) * u" using mr u_pos by simp
  have b0: "0 \<le> (of_int m + 1 / 2) * u" using mr u_pos by simp
  have s_lo: "(of_int m - 1 / 2) * u < sqrt v"
    using lo a0 unfolding u_def [symmetric] by (simp add: real_less_rsqrt)
  have s_hi: "sqrt v < (of_int m + 1 / 2) * u"
    using hi b0 unfolding u_def [symmetric]
    by (metis real_sqrt_less_iff real_sqrt_abs abs_of_nonneg)
  have s_pos: "0 < sqrt v" using s_lo a0 by linarith
  have up: "u * 2 ^ 52 = 2 powi e" and up1: "u * 2 ^ 53 = 2 powi (e + 1)"
    unfolding u_def by (rule powi2_shift)+
  have "of_int m - 1 / 2 \<ge> (2::real) ^ 52" using mr'(1) by linarith
  then have "2 ^ 52 * u \<le> (of_int m - 1 / 2) * u" using u_pos by (intro mult_right_mono) simp_all
  then have L: "2 powi e \<le> \<bar>sqrt v\<bar>" using s_lo s_pos up by (simp add: mult.commute)
  have "of_int m + 1 / 2 \<le> (2::real) ^ 53" using mr'(2) by linarith
  then have "(of_int m + 1 / 2) * u \<le> 2 ^ 53 * u" using u_pos by (intro mult_right_mono) simp_all
  then have H: "\<bar>sqrt v\<bar> < 2 powi (e + 1)" using s_hi s_pos up1 by (simp add: mult.commute)
  have "of_int m - 1 / 2 < sqrt v / u" "sqrt v / u < of_int m + 1 / 2"
    using s_lo s_hi u_pos by (simp_all add: pos_less_divide_eq pos_divide_less_eq)
  then have "round_to_even (sqrt v / u) = m" by (intro round_to_even_eqI) linarith
  then show ?thesis using Fin_eval [OF L H e] by (simp add: u_def)
qed

text \<open>Arithmetic with the special values.\<close>

lemma Double_minus [simp]: "Double a - Double b = Fin (a - b)"
  by (simp add: minus_number_def)

lemma minus_NaN [simp]: "NaN - x = NaN" "x - NaN = NaN"
  by (cases x; simp add: minus_number_def)+

lemma plus_NaN [simp]: "x + NaN = NaN"
  by (cases x) simp_all

lemma times_NaN [simp]: "x * NaN = NaN"
  by (cases x) simp_all

lemma strict_eq_Double [simp]: "strict_eq (Double a) (Double b) = (a = b)"
  by (simp add: strict_eq_def)

lemma strict_eq_special [simp]:
  "strict_eq NaN x = False" "strict_eq x NaN = False"
  "strict_eq PInf (Double a) = False" "strict_eq NInf (Double a) = False"
  by (simp_all add: strict_eq_def)

lemma real_pow_two: "real_pow x 2 = x * x"
  by (cases "x = 0") (simp_all add: real_pow_def power2_eq_square)

lemma real_pow_one: "real_pow x 1 = x"
  by (simp add: real_pow_def)

lemma Math_pow_two [simp]: "Math_pow (Double x) (Double 2) = Fin (x * x)"
  by (simp add: Math_pow.simps real_pow_two is_integral_def)

lemma Math_pow_one [simp]: "Math_pow (Double x) (Double 1) = Fin x"
  by (simp add: Math_pow.simps real_pow_one is_integral_def)

lemma Math_min_Double [simp]: "Math_min (Double a) (Double b) = Double (min a b)"
  by (simp add: min_def)

section \<open>Personal rate of return\<close>

text \<open>
  Claim C4. \<open>calculatePROR\<close> throws its error if and only if the beginning value is not
  positive or the denominator it computes, \<open>beginningValue + contributions * (timePeriod /
  12)\<close> in the arithmetic of numbers, is not positive; otherwise it returns
  \<open>(endingValue - beginningValue - (contributions - withdrawals)) / denominator * 100\<close>,
  computed in the same arithmetic, to two decimals. \<open>PROR(10000, 11000, 1000, 0, 12)\<close> is
  \<open>0.00\<close> and \<open>PROR(0, 1000, 0, 0, 12)\<close> throws.
\<close>

theorem calculatePROR_raises_iff:
  "(let denominator = Fin b + Fin c * (Fin t / Fin 12)
    in ((\<exists>msg. calculatePROR b e c w t = Inl (Error msg))
          \<longleftrightarrow> (Fin b \<le> Fin 0 \<or> denominator \<le> Fin 0))
       \<and> (\<not> (Fin b \<le> Fin 0 \<or> denominator \<le> Fin 0) \<longrightarrow>
            calculatePROR b e c w t =
              Inr (toFixed ((Fin e - Fin b - (Fin c - Fin w)) / denominator * Fin 100) 2)))
   \<and> calculatePROR 10000 11000 1000 0 12 = Inr (Fin 0.00)
   \<and> (\<exists>msg. calculatePROR 0 1000 0 0 12 = Inl (Error msg))"
proof -
  have general: "(let denominator = Fin b + Fin c * (Fin t / Fin 12)
    in ((\<exists>msg. calculatePROR b e c w t = Inl (Error msg))
          \<longleftrightarrow> (Fin b \<le> Fin 0 \<or> denominator \<le> Fin 0))
       \<and> (\<not> (Fin b \<le> Fin 0 \<or> denominator \<le> Fin 0) \<longrightarrow>
            calculatePROR b e c w t =
              Inr (toFixed ((Fin e - Fin b - (Fin c - Fin w)) / denominator * Fin 100) 2)))"
    unfolding calculatePROR_def Let_def by auto
  have zero: "calculatePROR 10000 11000 1000 0 12 = Inr (Fin 0.00)"
    by (simp add: calculatePROR_def Let_def round_half_up_def)
  have throws: "\<exists>msg. calculatePROR 0 1000 0 0 12 = Inl (Error msg)"
    by (simp add: calculatePROR_def)
  show ?thesis using general zero throws by blast
qed

theorem calculatePROR_raises_iff_witness:
  "\<not> (Fin 10000 \<le> Fin 0 \<or> Fin 10000 + Fin 1000 * (Fin 12 / Fin 12) \<le> Fin 0)
   \<and> calculatePROR 10000 12000 1000 0 12 = Inr (Fin 9.09)"
proof -
  have a1: "Fin (1 / 11) = Double (3275345183542179 / 36028797018963968)"
    using Fin_eval [of "- 4" "1 / 11"] by (simp add: round_to_even_def)
  have a2: "Fin (81883629588554475 / 9007199254740992) = Double (5117726849284655 / 562949953421312)"
    using Fin_eval [of "3" "81883629588554475 / 9007199254740992"] by (simp add: round_to_even_def)
  have a3: "Fin (909 / 100) = Double (2558607538299863 / 281474976710656)"
    using Fin_eval [of "3" "909 / 100"] by (simp add: round_to_even_def)
  show ?thesis
    using calculatePROR_raises_iff [of 10000 1000 12 12000 0]
    by (simp add: Let_def round_half_up_def a1 a2 a3)
qed

text \<open>
  For an argument that is itself a double the first condition is the comparison of the
  argument with zero.
\<close>

lemma beginning_value_not_positive:
  "Fin b = Double b \<Longrightarrow> Fin b \<le> Fin 0 \<longleftrightarrow> b \<le> 0"
  by simp

text \<open>
  The denominator is the computed one. With beginning value \<open>58.5\<close>, contributions
  \<open>-54\<close> and thirteen months the exact denominator is zero, but \<open>13 / 12\<close> is
  rounded, the computed denominator is \<open>2^-47\<close>, and the function returns instead of
  throwing. The rounding to two decimals is applied to the computed quotient: where the
  exact rate is \<open>-0.705\<close> the computed one lies just above it and is printed as
  \<open>-0.70\<close>.
\<close>

lemma calculatePROR_rounded_denominator:
  "calculatePROR 58.5 68.5 (- 54) 0 13 = Inr (Fin 900719925474099200)"
proof -
  have b1: "Fin (117 / 2) = Double (117 / 2)"
    using Fin_eval [of "5" "117 / 2"] by (simp add: round_to_even_def)
  have b2: "Fin (137 / 2) = Double (137 / 2)"
    using Fin_eval [of "6" "137 / 2"] by (simp add: round_to_even_def)
  have b3: "Fin (13 / 12) = Double (4878899596318037 / 4503599627370496)"
    using Fin_eval [of "0" "13 / 12"] by (simp add: round_to_even_def)
  have b4: "Fin (- (131730289100586999 / 2251799813685248)) = Double (- (8233143068786687 / 140737488355328))"
    using Fin_eval [of "5" "- (131730289100586999 / 2251799813685248)"] by (simp add: round_to_even_def)
  have b5: "Fin (1 / 140737488355328) = Double (1 / 140737488355328)"
    using Fin_eval [of "- 47" "1 / 140737488355328"] by (simp add: round_to_even_def)
  have b6: "Fin (9007199254740992) = Double (9007199254740992)"
    using Fin_eval [of "53" "9007199254740992"] by (simp add: round_to_even_def)
  have b7: "Fin (900719925474099200) = Double (900719925474099200)"
    using Fin_eval [of "59" "900719925474099200"] by (simp add: round_to_even_def)
  show ?thesis
    by (simp add: calculatePROR_def Let_def round_half_up_def b1 b2 b3 b4 b5 b6 b7)
qed

lemma calculatePROR_rounded_quotient:
  "calculatePROR 5000 4964.75 0 0 24 = Inr (Fin (- 0.7))"
proof -
  have c1: "Fin (19859 / 4) = Double (19859 / 4)"
    using Fin_eval [of "12" "19859 / 4"] by (simp add: round_to_even_def)
  have c2: "Fin (- (141 / 4)) = Double (- (141 / 4))"
    using Fin_eval [of "5" "- (141 / 4)"] by (simp add: round_to_even_def)
  have c3: "Fin (- (141 / 20000)) = Double (- (8128096607478271 / 1152921504606846976))"
    using Fin_eval [of "- 8" "- (141 / 20000)"] by (simp add: round_to_even_def)
  have c4: "Fin (- (203202415186956775 / 288230376151711744)) = Double (- (6350075474592399 / 9007199254740992))"
    using Fin_eval [of "- 1" "- (203202415186956775 / 288230376151711744)"] by (simp add: round_to_even_def)
  have c5: "Fin (- (7 / 10)) = Double (- (3152519739159347 / 4503599627370496))"
    using Fin_eval [of "- 1" "- (7 / 10)"] by (simp add: round_to_even_def)
  show ?thesis
    by (simp add: calculatePROR_def Let_def round_half_up_def c1 c2 c3 c4 c5)
qed

section \<open>Beta and correlation of a sequence with itself\<close>

lemma upt_2: "[0..<2] = [0, 1]"
  by (simp add: upt_rec)

lemma upt_3: "[0..<3] = [0, 1, 2]"
  by (simp add: upt_rec)

text \<open>
  Where the arithmetic is exact the two functions behave as on the reals: the sequence
  \<open>1, 2\<close> has beta and correlation \<open>1\<close> with itself, and the constant sequence
  \<open>3, 3\<close>, whose mean is computed exactly, has the default correlation \<open>0\<close>.
\<close>

lemma beta_correlation_self_exact:
  "calculateBeta [1, 2] [1, 2] = Fin 1"
  "calculateCorrelation [1, 2] [1, 2] = Fin 1"
  "calculateCorrelation [3, 3] [3, 3] = Fin 0"
proof -
  have g1: "Fin (3 / 2) = Double (3 / 2)"
    using Fin_eval [of "0" "3 / 2"] by (simp add: round_to_even_def)
  have g2: "Fin (- (1 / 2)) = Double (- (1 / 2))"
    using Fin_eval [of "- 1" "- (1 / 2)"] by (simp add: round_to_even_def)
  have g3: "Fin (1 / 4) = Double (1 / 4)"
    using Fin_eval [of "- 2" "1 / 4"] by (simp add: round_to_even_def)
  have g4: "Fin (1 / 2) = Double (1 / 2)"
    using Fin_eval [of "- 1" "1 / 2"] by (simp add: round_to_even_def)
  have g5: "sqrt (1 / 4) = 1 / 2"
    by (rule real_sqrt_unique) (simp_all add: power2_eq_square)
  show "calculateBeta [1, 2] [1, 2] = Fin 1"
    by (simp add: calculateBeta_def beta_step_def upt_2 reduce_sum_def Let_def round_half_up_def
        g1 g2 g3 g4 g5)
  show "calculateCorrelation [1, 2] [1, 2] = Fin 1"
    by (simp add: calculateCorrelation_def correlation_step_def upt_2 reduce_sum_def Let_def
        round_half_up_def g1 g2 g3 g4 g5)
  show "calculateCorrelation [3, 3] [3, 3] = Fin 0"
    by (simp add: calculateCorrelation_def correlation_step_def upt_2 reduce_sum_def Let_def
        round_half_up_def g1 g2 g3 g4 g5)
qed

text \<open>
  The beta of a sequence with itself divides the computed variance by itself: it is
  \<open>1\<close>, or \<open>NaN\<close> when the sum of squares has overflowed.
\<close>

lemma beta_fold_self:
  "fst acc = snd acc \<Longrightarrow>
   fst (foldl (beta_step r r a a) acc is) = snd (foldl (beta_step r r a a) acc is)"
  by (induction "is" arbitrary: acc) (simp_all add: beta_step_def Let_def)

lemma calculateBeta_self: "calculateBeta r r = Fin 1 \<or> calculateBeta r r = NaN"
proof (cases "r = []")
  case True
  then show ?thesis by (simp add: calculateBeta_def)
next
  case False
  define a where "a = reduce_sum (map Fin r) / Fin (real (length r))"
  define acc where "acc = foldl (beta_step r r a a) (Fin 0, Fin 0) [0 ..< length r]"
  have eq: "fst acc = snd acc" unfolding acc_def by (rule beta_fold_self) simp
  define V where "V = snd acc / Fin (real (length r))"
  have B: "calculateBeta r r = (if strict_eq V (Fin 0) then Fin 1 else toFixed (V / V) 3)"
    unfolding calculateBeta_def Let_def a_def [symmetric] acc_def [symmetric] eq V_def [symmetric]
    using False by simp
  show ?thesis
  proof (cases V)
    case (Double v)
    then show ?thesis using B by (simp add: round_half_up_def)
  qed (simp_all add: B)
qed

lemma calculateBeta_overflow:
  "calculateBeta [10 ^ 200, - (10 ^ 200)] [10 ^ 200, - (10 ^ 200)] = NaN"
proof -
  have o1: "Fin (100000000000000000000000000000000000000000000000000000000000000000000000000000000000000000000000000000000000000000000000000000000000000000000000000000000000000000000000000000000000000000000000000000000) = Double (99999999999999996973312221251036165947450327545502362648241750950346848435554075534196338404706251868027512415973882408182135734368278484639385041047239877871023591066789981811181813306167128854888448)"
    using Fin_eval [of "664" "100000000000000000000000000000000000000000000000000000000000000000000000000000000000000000000000000000000000000000000000000000000000000000000000000000000000000000000000000000000000000000000000000000000"] by (simp add: round_to_even_def)
  have o2: "Fin (- 100000000000000000000000000000000000000000000000000000000000000000000000000000000000000000000000000000000000000000000000000000000000000000000000000000000000000000000000000000000000000000000000000000000) = Double (- 99999999999999996973312221251036165947450327545502362648241750950346848435554075534196338404706251868027512415973882408182135734368278484639385041047239877871023591066789981811181813306167128854888448)"
    using Fin_eval [of "664" "- 100000000000000000000000000000000000000000000000000000000000000000000000000000000000000000000000000000000000000000000000000000000000000000000000000000000000000000000000000000000000000000000000000000000"] by (simp add: round_to_even_def)
  have o3: "Fin (99999999999999996973312221251036165947450327545502362648241750950346848435554075534196338404706251868027512415973882408182135734368278484639385041047239877871023591066789981811181813306167128854888448) = Double (99999999999999996973312221251036165947450327545502362648241750950346848435554075534196338404706251868027512415973882408182135734368278484639385041047239877871023591066789981811181813306167128854888448)"
    using Fin_eval [of "664" "99999999999999996973312221251036165947450327545502362648241750950346848435554075534196338404706251868027512415973882408182135734368278484639385041047239877871023591066789981811181813306167128854888448"] by (simp add: round_to_even_def)
  have o4: "Fin (- 99999999999999996973312221251036165947450327545502362648241750950346848435554075534196338404706251868027512415973882408182135734368278484639385041047239877871023591066789981811181813306167128854888448) = Double (- 99999999999999996973312221251036165947450327545502362648241750950346848435554075534196338404706251868027512415973882408182135734368278484639385041047239877871023591066789981811181813306167128854888448)"
    using Fin_eval [of "664" "- 99999999999999996973312221251036165947450327545502362648241750950346848435554075534196338404706251868027512415973882408182135734368278484639385041047239877871023591066789981811181813306167128854888448"] by (simp add: round_to_even_def)
  have o5: "Fin (9999999999999999394662444250207242350328975537437122472339781620627054208687723630273803080019321330542305583946752893233248807023279528544321615522160248929124666144096269561533145561164738489983397621092322208138630994725213747351190385096618755256077267472586468217736468683611398422884121732612670396695303894425945224331154483477963396905445761715933439520020822843337114038314499908946523848704) = PInf"
    by (rule Fin_overflow) simp
  show ?thesis
    by (simp add: calculateBeta_def beta_step_def upt_2 reduce_sum_def Let_def o1 o2 o3 o4 o5)
qed

text \<open>
  Claim C10 fails for a constant sequence whose mean is not computed exactly. The sum of
  three observations \<open>0.1\<close> is \<open>0.30000000000000004\<close> and their mean
  \<open>0.10000000000000002\<close>, so every deviation is \<open>-2^-56\<close> and not zero, the
  denominator is \<open>3 * 2^-112\<close>, the guard for a zero denominator does not apply, and
  the correlation of the sequence with itself is \<open>1\<close> where the claim has the default
  \<open>0\<close>.
\<close>

theorem correlation_of_constant_returns:
  "calculateCorrelation [0.1, 0.1, 0.1] [0.1, 0.1, 0.1] = Fin 1"
proof -
  have f1: "Fin (1 / 10) = Double (3602879701896397 / 36028797018963968)"
    using Fin_eval [of "- 4" "1 / 10"] by (simp add: round_to_even_def)
  have f2: "Fin (3602879701896397 / 36028797018963968) = Double (3602879701896397 / 36028797018963968)"
    using Fin_eval [of "- 4" "3602879701896397 / 36028797018963968"] by (simp add: round_to_even_def)
  have f3: "Fin (3602879701896397 / 18014398509481984) = Double (3602879701896397 / 18014398509481984)"
    using Fin_eval [of "- 3" "3602879701896397 / 18014398509481984"] by (simp add: round_to_even_def)
  have f4: "Fin (10808639105689191 / 36028797018963968) = Double (1351079888211149 / 4503599627370496)"
    using Fin_eval [of "- 2" "10808639105689191 / 36028797018963968"] by (simp add: round_to_even_def)
  have f5: "Fin (1351079888211149 / 13510798882111488) = Double (7205759403792795 / 72057594037927936)"
    using Fin_eval [of "- 4" "1351079888211149 / 13510798882111488"] by (simp add: round_to_even_def)
  have f6: "Fin (- (1 / 72057594037927936)) = Double (- (1 / 72057594037927936))"
    using Fin_eval [of "- 56" "- (1 / 72057594037927936)"] by (simp add: round_to_even_def)
  have f7: "Fin (1 / 5192296858534827628530496329220096) = Double (1 / 5192296858534827628530496329220096)"
    using Fin_eval [of "- 112" "1 / 5192296858534827628530496329220096"] by (simp add: round_to_even_def)
  have f8: "Fin (1 / 2596148429267413814265248164610048) = Double (1 / 2596148429267413814265248164610048)"
    using Fin_eval [of "- 111" "1 / 2596148429267413814265248164610048"] by (simp add: round_to_even_def)
  have f9: "Fin (3 / 5192296858534827628530496329220096) = Double (3 / 5192296858534827628530496329220096)"
    using Fin_eval [of "- 111" "3 / 5192296858534827628530496329220096"] by (simp add: round_to_even_def)
  have f10: "Fin (9 / 26959946667150639794667015087019630673637144422540572481103610249216) = Double (9 / 26959946667150639794667015087019630673637144422540572481103610249216)"
    using Fin_eval [of "- 221" "9 / 26959946667150639794667015087019630673637144422540572481103610249216"] by (simp add: round_to_even_def)
  have f11: "sqrt (9 / 26959946667150639794667015087019630673637144422540572481103610249216) = 3 / 5192296858534827628530496329220096"
    by (rule real_sqrt_unique) (simp_all add: power2_eq_square)
  show ?thesis
    by (simp add: calculateCorrelation_def correlation_step_def upt_3
        reduce_sum_def Let_def round_half_up_def f1 f2 f3 f4 f5 f6 f7 f8 f9 f10 f11)
qed

theorem correlation_of_constant_returns_witness:
  "calculateCorrelation [0.1, 0.1, 0.1] [0.1, 0.1, 0.1] \<noteq> Fin 0"
  using correlation_of_constant_returns by simp

section \<open>Value at risk\<close>

lemma array_get_int:
  "array_get xs (Double (of_int k)) =
     (if 0 \<le> k \<and> nat k < length xs then Some (xs ! nat k) else None)"
  by (auto simp add: is_integral_def)

text \<open>
  The position \<open>(1 - confidenceLevel) * length\<close> as the code computes it, and the two
  functions in terms of it: outside the array the read gives \<open>undefined\<close> and
  \<open>toFixed\<close> throws.
\<close>

lemma calculateVaR_at_position:
  assumes "returns \<noteq> []" "(Fin 1 - Fin c) * Fin (real (length returns)) = Double p"
  shows "calculateVaR returns c =
     (if 0 \<le> p \<and> p < real (length returns)
      then Inr (toFixed (Fin (sort returns ! nat \<lfloor>p\<rfloor>)) 2) else Inl TypeError)"
proof -
  have "(0 \<le> \<lfloor>p\<rfloor> \<and> nat \<lfloor>p\<rfloor> < length returns) \<longleftrightarrow> (0 \<le> p \<and> p < real (length returns))"
    by (auto simp add: floor_less_iff nat_less_iff)
  then show ?thesis using assms
    by (simp add: calculateVaR_def Let_def array_get_int del: array_get.simps)
qed

lemma calculateCVaR_at_position:
  assumes "returns \<noteq> []" "(Fin 1 - Fin c) * Fin (real (length returns)) = Double p"
    "0 \<le> p" "p < real (length returns)"
  shows "calculateCVaR returns c =
     (let v = toFixed (Fin (sort returns ! nat \<lfloor>p\<rfloor>)) 2;
          tail = filter (\<lambda>ret. Fin ret \<le> v) returns
      in Inr (if tail = [] then v
              else toFixed (reduce_sum (map Fin tail) / Fin (real (length tail))) 2))"
  using assms by (simp add: calculateCVaR_def calculateVaR_at_position Let_def)

text \<open>
  For a confidence level between \<open>2^-53\<close> and \<open>1\<close> the position lies within the
  array: \<open>1 - c\<close> rounds to at most \<open>1 - 2^-53\<close>, the largest double below \<open>1\<close>,
  and its product with the length rounds to less than the length.
\<close>

lemma one_minus_in_range:
  assumes "1 / 2 ^ 53 \<le> c" "c \<le> 1"
  shows "\<exists>q. Fin 1 - Fin c = Double q \<and> 0 \<le> q \<and> q \<le> 1 - 1 / 2 ^ 53"
proof -
  have lo: "Fin (1 / 2 ^ 53) = Double (1 / 2 ^ 53)"
    using Fin_eval [of "- 53" "1 / 2 ^ 53"] by (simp add: round_to_even_def)
  have hi: "Fin (1 - 1 / 2 ^ 53) = Double (1 - 1 / 2 ^ 53)"
    using Fin_eval [of "- 1" "1 - 1 / 2 ^ 53"] by (simp add: round_to_even_def)
  obtain c' where c': "Fin c = Double c'" "1 / 2 ^ 53 \<le> c'" "c' \<le> 1"
    using Fin_between [OF lo Fin_one assms] by blast
  have "\<exists>q. Fin (1 - c') = Double q \<and> 0 \<le> q \<and> q \<le> 1 - 1 / 2 ^ 53"
    using c'(2,3) by (intro Fin_between [OF Fin_zero hi]) simp_all
  then show ?thesis by (simp add: c'(1))
qed

lemma position_in_range:
  assumes c: "1 / 2 ^ 53 \<le> c" "c \<le> 1" and n: "0 < n" "n < 2 ^ 32"
  shows "\<exists>p. (Fin 1 - Fin c) * Fin (real n) = Double p \<and> 0 \<le> p \<and> p < real n"
proof -
  obtain q where q: "Fin 1 - Fin c = Double q" "0 \<le> q" "q \<le> 1 - 1 / 2 ^ 53"
    using one_minus_in_range [OF c] by blast
  have "n < 2 ^ 53" using n(2) by (rule less_trans) simp
  then have N: "Fin (real n) = Double (real n)" by (rule Fin_of_nat)
  have prod: "(Fin 1 - Fin c) * Fin (real n) = Fin (q * real n)"
    by (simp only: q(1) N times_number.simps)
  have n1: "1 \<le> real n" using n(1) by simp
  have n32: "real n < 2 ^ 32" using n(2)
    by (metis of_nat_less_iff of_nat_numeral of_nat_power)
  have qn0: "0 \<le> q * real n" using q(2) by simp
  have qn: "q * real n \<le> (1 - 1 / 2 ^ 53) * real n"
    using q(3) by (intro mult_right_mono) simp_all
  show ?thesis
  proof (cases "2 powi (- 1022) \<le> q * real n")
    case True
    have "q * real n \<le> real n" using qn n1 by (simp add: algebra_simps)
    then have "\<bar>q * real n\<bar> < 2 powi 1023" using n32 qn0 by simp
    moreover have "2 powi (- 1022) \<le> \<bar>q * real n\<bar>" using True qn0 by simp
    ultimately obtain p where p: "Fin (q * real n) = Double p"
        "\<bar>p - q * real n\<bar> \<le> \<bar>q * real n\<bar> / 2 ^ 53"
      using Fin_rel_error [of "q * real n"] by blast
    define r :: real where "r = 1 + 1 / 2 ^ 53"
    have r0: "0 \<le> r" by (simp add: r_def)
    have "\<bar>q * real n\<bar> = q * real n" using qn0 by simp
    then have "p - q * real n \<le> q * real n / 2 ^ 53" using p(2) by linarith
    moreover have "q * real n * r = q * real n + q * real n / 2 ^ 53"
      by (simp add: r_def algebra_simps)
    ultimately have "p \<le> q * real n * r" by linarith
    also have "\<dots> \<le> (1 - 1 / 2 ^ 53) * real n * r"
      using qn r0 by (rule mult_right_mono)
    also have "\<dots> = real n * ((1 - 1 / 2 ^ 53) * r)" by (simp add: algebra_simps)
    also have "\<dots> < real n * 1"
      using n1 by (intro mult_strict_left_mono) (simp_all add: r_def)
    finally have "p < real n" by simp
    moreover have "0 \<le> p"
      using Fin_between [OF Fin_zero Fin_one, of "0"] Fin_idem [OF p(1)]
        nearest_mono [of 0 "q * real n"] qn0 p(1) by (simp add: Fin_Double_iff)
    ultimately show ?thesis using prod p(1) by simp
  next
    case False
    have tiny: "Fin (2 powi (- 1022)) = Double (2 powi (- 1022))"
      using Fin_eval [of "- 1022" "2 powi (- 1022)"] by (simp add: round_to_even_def)
    obtain p where p: "Fin (q * real n) = Double p" "0 \<le> p" "p \<le> 2 powi (- 1022)"
      using Fin_between [OF Fin_zero tiny qn0] False by auto
    have "(2::real) powi (- 1022) < 1" by simp
    then have "p < real n" using p(3) n1 by linarith
    then show ?thesis using prod p(1,2) by simp
  qed
qed

text \<open>
  Below \<open>2^-54\<close> the difference \<open>1 - c\<close> rounds to \<open>1\<close>, the index is the length
  of the array, and the function throws, as it does at confidence \<open>0\<close>.
\<close>

lemma calculateVaR_confidence_zero:
  "calculateVaR [1] 0 = Inl TypeError"
  "calculateVaR [1] (1 / 2 ^ 60) = Inl TypeError"
proof -
  have t: "Fin (1 / 2 ^ 60) = Double (1 / 2 ^ 60)"
    using Fin_eval [of "- 60" "1 / 2 ^ 60"] by (simp add: round_to_even_def)
  have r: "Fin (1 - 1 / 2 ^ 60) = Double 1"
    using Fin_eval [of "- 1" "1 - 1 / 2 ^ 60"] by (simp add: round_to_even_def)
  show "calculateVaR [1] 0 = Inl TypeError"
    by (simp add: calculateVaR_def is_integral_def)
  show "calculateVaR [1] (1 / 2 ^ 60) = Inl TypeError"
    using t r by (simp add: calculateVaR_def is_integral_def)
qed

text \<open>
  The position is the computed one. For the ten observations \<open>1, ..., 10\<close> at
  confidence \<open>0.1\<close> the difference \<open>1 - 0.1\<close> is \<open>0.9\<close>, its product with \<open>10\<close>
  is \<open>9\<close> and the value at risk is the last observation; at confidence \<open>0.9\<close> the
  difference is \<open>0.09999999999999998\<close>, the product lies below \<open>1\<close> and the value
  at risk is the first.
\<close>

lemma calculateVaR_rounded_position:
  "calculateVaR [1, 2, 3, 4, 5, 6, 7, 8, 9, 10] 0.1 = Inr (Fin 10)"
  "calculateCVaR [1, 2, 3, 4, 5, 6, 7, 8, 9, 10] 0.1 = Inr (Fin 5.5)"
proof -
  have r1: "Fin (1 / 10) = Double (3602879701896397 / 36028797018963968)"
    using Fin_eval [of "- 4" "1 / 10"] by (simp add: round_to_even_def)
  have r2: "Fin (32425917317067571 / 36028797018963968) = Double (8106479329266893 / 9007199254740992)"
    using Fin_eval [of "- 1" "32425917317067571 / 36028797018963968"] by (simp add: round_to_even_def)
  have r3: "Fin (40532396646334465 / 4503599627370496) = Double (9)"
    using Fin_eval [of "3" "40532396646334465 / 4503599627370496"] by (simp add: round_to_even_def)
  have r4: "Fin (11 / 2) = Double (11 / 2)"
    using Fin_eval [of "2" "11 / 2"] by (simp add: round_to_even_def)
  have srt: "sort [1, 2, 3, 4, 5, 6, 7, 8, 9, 10 :: real] = [1, 2, 3, 4, 5, 6, 7, 8, 9, 10]"
    by simp
  show "calculateVaR [1, 2, 3, 4, 5, 6, 7, 8, 9, 10] 0.1 = Inr (Fin 10)"
    by (simp add: calculateVaR_def Let_def is_integral_def round_half_up_def r1 r2 r3 r4)
  then show "calculateCVaR [1, 2, 3, 4, 5, 6, 7, 8, 9, 10] 0.1 = Inr (Fin 5.5)"
    by (simp add: calculateCVaR_def Let_def reduce_sum_def round_half_up_def r1 r2 r3 r4)
qed

text \<open>
  The tail is taken against the rounded value, so it can be empty: the only observation
  \<open>1.004\<close> lies above its own value at risk \<open>1.00\<close>, which is then returned.
\<close>

lemma calculateCVaR_empty_tail: "calculateCVaR [1.004] 0.95 = Inr (Fin 1.00)"
proof -
  have t1: "Fin (19 / 20) = Double (4278419646001971 / 4503599627370496)"
    using Fin_eval [of "- 1" "19 / 20"] by (simp add: round_to_even_def)
  have t2: "Fin (225179981368525 / 4503599627370496) = Double (225179981368525 / 4503599627370496)"
    using Fin_eval [of "- 5" "225179981368525 / 4503599627370496"] by (simp add: round_to_even_def)
  have t3: "Fin (251 / 250) = Double (2260807012939989 / 2251799813685248)"
    using Fin_eval [of "0" "251 / 250"] by (simp add: round_to_even_def)
  have v: "calculateVaR [1.004] 0.95 = Inr (Fin 1.00)"
    by (simp add: calculateVaR_def Let_def is_integral_def round_half_up_def t1 t2 t3)
  show ?thesis
    using v by (simp add: calculateCVaR_def Let_def t1 t2 t3)
qed

text \<open>
  Claim C6. For a non-empty sequence of \<open>n\<close> returns and a confidence level \<open>c\<close>
  between \<open>2^-53\<close> and \<open>1\<close>, \<open>calculateVaR\<close> is the element of the ascending sort
  at the index \<open>floor((1 - c) * n)\<close>, the position being computed in the arithmetic of
  numbers, to two decimals, and \<open>calculateCVaR\<close> is the mean, to two decimals, of the
  returns at or below that value, or the value itself when no return qualifies; both are
  \<open>0\<close> for the empty sequence. An array has fewer than \<open>2^32\<close> elements.
\<close>

theorem VaR_CVaR_historical:
  "(returns \<noteq> [] \<and> length returns < 2 ^ 32 \<and> 1 / 2 ^ 53 \<le> c \<and> c \<le> 1 \<longrightarrow>
      (case (Fin 1 - Fin c) * Fin (real (length returns)) of
         Double p \<Rightarrow>
           (let k = nat \<lfloor>p\<rfloor>;
                v = toFixed (Fin (sort returns ! k)) 2;
                tail = filter (\<lambda>ret. Fin ret \<le> v) returns
            in k < length returns
               \<and> calculateVaR returns c = Inr v
               \<and> calculateCVaR returns c =
                   Inr (if tail = [] then v
                        else toFixed (reduce_sum (map Fin tail) / Fin (real (length tail))) 2))
       | _ \<Rightarrow> False))
   \<and> calculateVaR [] c = Inr (Fin 0)
   \<and> calculateCVaR [] c = Inr (Fin 0)"
proof -
  have empty: "calculateVaR [] c = Inr (Fin 0)" "calculateCVaR [] c = Inr (Fin 0)"
    by (simp_all add: calculateVaR_def calculateCVaR_def)
  show ?thesis
  proof (cases "returns \<noteq> [] \<and> length returns < 2 ^ 32 \<and> 1 / 2 ^ 53 \<le> c \<and> c \<le> 1")
    case True
    then obtain p where p: "(Fin 1 - Fin c) * Fin (real (length returns)) = Double p"
        "0 \<le> p" "p < real (length returns)"
      using position_in_range [of c "length returns"] by auto
    have k: "nat \<lfloor>p\<rfloor> < length returns"
      using p(2,3) by (simp add: floor_less_iff nat_less_iff)
    have ne: "returns \<noteq> []" using True by simp
    show ?thesis
      using empty k calculateVaR_at_position [OF ne p(1)]
        calculateCVaR_at_position [OF ne p] p(2,3)
      by (simp add: p(1) [unfolded Fin_one] Let_def)
  next
    case False
    then show ?thesis using empty by auto
  qed
qed

theorem VaR_CVaR_historical_witness:
  "[1, 2, 3, 4, 5, 6, 7, 8, 9, 10] \<noteq> ([] :: real list)
   \<and> length [1, 2, 3, 4, 5, 6, 7, 8, 9, 10 :: real] < 2 ^ 32
   \<and> 1 / 2 ^ 53 \<le> (0.9 :: real) \<and> (0.9 :: real) \<le> 1
   \<and> calculateVaR [1, 2, 3, 4, 5, 6, 7, 8, 9, 10] 0.9 = Inr (Fin 1)
   \<and> calculateCVaR [1, 2, 3, 4, 5, 6, 7, 8, 9, 10] 0.9 = Inr (Fin 1)"
proof -
  have w1: "Fin (9 / 10) = Double (8106479329266893 / 9007199254740992)"
    using Fin_eval [of "- 1" "9 / 10"] by (simp add: round_to_even_def)
  have w2: "Fin (900719925474099 / 9007199254740992) = Double (900719925474099 / 9007199254740992)"
    using Fin_eval [of "- 4" "900719925474099 / 9007199254740992"] by (simp add: round_to_even_def)
  have w3: "Fin (4503599627370495 / 4503599627370496) = Double (4503599627370495 / 4503599627370496)"
    using Fin_eval [of "- 1" "4503599627370495 / 4503599627370496"] by (simp add: round_to_even_def)
  show ?thesis
    using VaR_CVaR_historical [of "[1, 2, 3, 4, 5, 6, 7, 8, 9, 10]" "0.9"]
    by (simp add: Let_def reduce_sum_def round_half_up_def w1 w2 w3)
qed

section \<open>Liquidity requirements\<close>

lemma last_index: "pd \<noteq> [] \<Longrightarrow> pd ! (length pd - Suc 0) = last pd"
  by (simp add: last_conv_nth)

lemma singleton_length: "pd \<noteq> [] \<Longrightarrow> \<not> 2 \<le> length pd \<Longrightarrow> \<exists>p. pd = [p]"
  by (cases pd) (auto simp: Suc_le_eq)

lemma one_percent: "Fin (1 / 100) = Double (5764607523034235 / 576460752303423488)"
  using Fin_eval [of "- 7" "1 / 100"] by (simp add: round_to_even_def)

text \<open>
  For a single observation the source takes the average daily volume as zero, not as 1% of
  the observation: the liquidity ratio is then infinite and the check fails. It fails as
  it would with the ratio that 1% of the mean gives, which for one observation of at least
  10,000,000 is about 100: the computed ratio is at least 63.
\<close>

lemma single_observation_ratio:
  assumes "Fin a = Double x" "10000000 \<le> x"
  shows "\<not> Fin a / ((Fin 0 + Fin a) / Fin 1 * Fin (1 / 100)) \<le> Fin 30"
proof -
  define c :: real where "c = 5764607523034235 / 576460752303423488"
  have c: "Fin (1 / 100) = Double c" by (simp add: one_percent c_def)
  have X: "Fin x = Double x" using assms(1) by (rule Fin_idem)
  have fin: "\<bar>x\<bar> < 2 ^ 1024" using assms(1) by (simp add: Fin_Double_iff)
  have xpos: "0 < x" using assms(2) by linarith
  have xc: "0 < x * c" using xpos by (simp add: c_def)
  have "x * c < 2 ^ 1024 * (1 / 64)" using fin xpos by (simp add: c_def)
  then have up: "\<bar>x * c\<bar> < 2 powi 1023" using xc by simp
  have "(2::real) powi (- 1022) \<le> 1" by (simp add: power_int_le_one)
  also have "\<dots> \<le> x * c" using assms(2) by (simp add: c_def)
  finally have lo: "2 powi (- 1022) \<le> \<bar>x * c\<bar>" using xc by simp
  obtain v where v: "Fin (x * c) = Double v" "\<bar>v - x * c\<bar> \<le> \<bar>x * c\<bar> / 2 ^ 53"
    using Fin_rel_error [OF lo up] by blast
  have abs: "\<bar>x * c\<bar> = x * c" using xc by simp
  define l where "l = x * c - x * c / 2 ^ 53"
  define u where "u = x * c + x * c / 2 ^ 53"
  have v_lo: "l \<le> v" and v_hi: "v \<le> u"
    using v(2) unfolding abs l_def u_def by linarith+
  have "0 < l" using xc by (simp add: l_def field_simps)
  then have vpos: "0 < v" using v_lo by linarith
  have "63 * u \<le> x" using xpos by (simp add: u_def c_def field_simps)
  then have "63 * v \<le> x" using v_hi by linarith
  then have q_lo: "63 \<le> x / v" using vpos by (simp add: pos_le_divide_eq)
  have "x \<le> 129 * l" using xpos by (simp add: l_def c_def field_simps)
  then have "x \<le> 129 * v" using v_lo by linarith
  then have q_hi: "x / v \<le> 129" using vpos by (simp add: pos_divide_le_eq)
  have d63: "Fin 63 = Double 63" and d129: "Fin 129 = Double 129" by simp_all
  obtain y where y: "Fin (x / v) = Double y" "63 \<le> y"
    using Fin_between [OF d63 d129 q_lo q_hi] by blast
  have "Fin a / ((Fin 0 + Fin a) / Fin 1 * Fin (1 / 100)) = Double y"
    using vpos by (simp add: assms(1) X c v(1) y(1))
  then show ?thesis using y(2) by simp
qed

lemma liquidity_compliant_iff:
  assumes ne: "performanceData \<noteq> []"
  shows "lr_compliant (checkLiquidityRequirements fundData performanceData)
     \<longleftrightarrow> (Fin 10000000 \<le> Fin (assets_under_management (last performanceData))
          \<and> Fin (assets_under_management (last performanceData))
              / (foldl (\<lambda>sum p. sum + Fin (assets_under_management p)) (Fin 0) performanceData
                   / Fin (real (length performanceData)) * Fin 0.01) \<le> Fin 30)"
proof (cases "2 \<le> length performanceData")
  case True
  then show ?thesis using ne
    by (simp add: checkLiquidityRequirements_def calculateAverageDailyVolume_def Let_def last_index)
next
  case False
  then obtain p where p: "performanceData = [p]" using ne singleton_length by blast
  define a where "a = assets_under_management p"
  have code: "lr_compliant (checkLiquidityRequirements fundData [p])
                \<longleftrightarrow> (Fin 10000000 \<le> Fin a \<and> Fin a / Fin 0 \<le> Fin 30)"
    by (simp add: checkLiquidityRequirements_def calculateAverageDailyVolume_def Let_def a_def)
  have both: "(Fin 10000000 \<le> Fin a \<and> Fin a / Fin 0 \<le> Fin 30)
        \<longleftrightarrow> (Fin 10000000 \<le> Fin a
             \<and> Fin a / ((Fin 0 + Fin a) / Fin 1 * Fin (1 / 100)) \<le> Fin 30)"
  proof (cases "Fin a")
    case (Double x)
    show ?thesis
    proof (cases "10000000 \<le> x")
      case True
      have "\<not> Fin a / ((Fin 0 + Fin a) / Fin 1 * Fin (1 / 100)) \<le> Fin 30"
        using Double True by (rule single_observation_ratio)
      moreover have "\<not> Fin a / Fin 0 \<le> Fin 30" using Double True by simp
      ultimately show ?thesis by blast
    next
      case False
      then show ?thesis using Double by simp
    qed
  next
    case PInf
    then show ?thesis by (simp add: one_percent)
  next
    case NInf
    then show ?thesis by simp
  next
    case NaN
    then show ?thesis by simp
  qed
  show ?thesis unfolding p using code both by (simp add: a_def)
qed

text \<open>
  The ratio is the computed one. For the series \<open>45000041, 45000040, 10000009\<close> the
  mean is \<open>100000090 / 3\<close> and the exact ratio is \<open>30\<close>; the mean, its hundredth and
  the quotient are each rounded, the computed ratio is \<open>30.000000000000004\<close>, and the
  check fails.
\<close>

lemma liquidity_rounded_ratio:
  "\<not> lr_compliant (checkLiquidityRequirements fundData
        [\<lparr>nav = 10, total_return = 1, benchmark_return = 1, assets_under_management = 45000041\<rparr>,
         \<lparr>nav = 10, total_return = 1, benchmark_return = 1, assets_under_management = 45000040\<rparr>,
         \<lparr>nav = 10, total_return = 1, benchmark_return = 1, assets_under_management = 10000009\<rparr>])"
proof -
  have b1: "Fin (100000090 / 3) = Double (8947856586397013 / 268435456)"
    using Fin_eval [of "24" "100000090 / 3"] by (simp add: round_to_even_def)
  have b2: "Fin (1 / 100) = Double (5764607523034235 / 576460752303423488)"
    using Fin_eval [of "- 7" "1 / 100"] by (simp add: round_to_even_def)
  have b3: "Fin (51580881392975650474764100740055 / 154742504910672534362390528) = Double (715828526911761 / 2147483648)"
    using Fin_eval [of "18" "51580881392975650474764100740055 / 154742504910672534362390528"] by (simp add: round_to_even_def)
  have b4: "Fin (21474855807352832 / 715828526911761) = Double (8444249301319681 / 281474976710656)"
    using Fin_eval [of "4" "21474855807352832 / 715828526911761"] by (simp add: round_to_even_def)
  show ?thesis
    by (simp add: checkLiquidityRequirements_def calculateAverageDailyVolume_def Let_def
        b1 b2 b3 b4)
qed

text \<open>
  Claim C7. For a non-empty performance series the liquidity check is compliant if and
  only if the assets under management of the last observation are at least 10,000,000 and
  that amount divided by the average daily volume, 1% of the mean of the assets under
  management over the series, is at most 30, the sum, the mean, its hundredth and the
  quotient being computed in the arithmetic of numbers. With no performance data the
  check fails, and the verdict lists it as a warning, not as a violation.
\<close>

theorem liquidity_requirements:
  "(performanceData \<noteq> [] \<longrightarrow>
      (let recentAUM = Fin (assets_under_management (last performanceData));
           totalAUM = foldl (\<lambda>sum p. sum + Fin (assets_under_management p)) (Fin 0) performanceData;
           meanAUM = totalAUM / Fin (real (length performanceData))
       in lr_compliant (checkLiquidityRequirements fundData performanceData)
            \<longleftrightarrow> (Fin 10000000 \<le> recentAUM \<and> recentAUM / (meanAUM * Fin 0.01) \<le> Fin 30)))
   \<and> \<not> lr_compliant (checkLiquidityRequirements fundData [])
   \<and> ''Liquidity Requirements'' \<in> set (warnings (checkCompliance h fundData [] alternativeInvestments))
   \<and> ''Liquidity Requirements'' \<notin> set (violations (checkCompliance h fundData [] alternativeInvestments))"
proof -
  have nodata: "\<not> lr_compliant (checkLiquidityRequirements fundData [])"
    by (simp add: checkLiquidityRequirements_def)
  have warn: "''Liquidity Requirements'' \<in> set (warnings (checkCompliance h fundData [] alternativeInvestments))"
    using nodata by (simp add: checkCompliance_def Let_def)
  have viol: "''Liquidity Requirements'' \<notin> set (violations (checkCompliance h fundData [] alternativeInvestments))"
    by (simp add: checkCompliance_def Let_def)
  show ?thesis
    unfolding Let_def
    using liquidity_compliant_iff [of performanceData fundData] nodata warn viol
    by blast
qed

theorem liquidity_requirements_witness:
  "[\<lparr>nav = 10, total_return = 1, benchmark_return = 1, assets_under_management = 100000000\<rparr>,
    \<lparr>nav = 10, total_return = 1, benchmark_return = 1, assets_under_management = 10000000\<rparr>] \<noteq> []
   \<and> lr_compliant (checkLiquidityRequirements
        \<lparr>fund_type = ''Balanced'', management_fee = 1.15, expense_ratio = 1.65,
         inception_date = ''2012-06-10''\<rparr>
        [\<lparr>nav = 10, total_return = 1, benchmark_return = 1, assets_under_management = 100000000\<rparr>,
         \<lparr>nav = 10, total_return = 1, benchmark_return = 1, assets_under_management = 10000000\<rparr>])
   \<and> \<not> lr_compliant (checkLiquidityRequirements
        \<lparr>fund_type = ''Balanced'', management_fee = 1.15, expense_ratio = 1.65,
         inception_date = ''2012-06-10''\<rparr>
        [\<lparr>nav = 10, total_return = 1, benchmark_return = 1, assets_under_management = 20000000\<rparr>])"
proof -
  have w1: "Fin (1 / 100) = Double (5764607523034235 / 576460752303423488)"
    using Fin_eval [of "- 7" "1 / 100"] by (simp add: round_to_even_def)
  have w2: "Fin (4953959590107545703125 / 9007199254740992) = Double (550000)"
    using Fin_eval [of "19" "4953959590107545703125 / 9007199254740992"] by (simp add: round_to_even_def)
  have w3: "Fin (200 / 11) = Double (5117726849284655 / 281474976710656)"
    using Fin_eval [of "4" "200 / 11"] by (simp add: round_to_even_def)
  have s1: "Fin (1 / 100) = Double (5764607523034235 / 576460752303423488)"
    using Fin_eval [of "- 7" "1 / 100"] by (simp add: round_to_even_def)
  have s2: "Fin (450359962737049609375 / 2251799813685248) = Double (200000)"
    using Fin_eval [of "17" "450359962737049609375 / 2251799813685248"] by (simp add: round_to_even_def)
  show ?thesis
    using liquidity_requirements [of "[\<lparr>nav = 10, total_return = 1, benchmark_return = 1, assets_under_management = 100000000\<rparr>,
         \<lparr>nav = 10, total_return = 1, benchmark_return = 1, assets_under_management = 10000000\<rparr>]"
        "\<lparr>fund_type = ''Balanced'', management_fee = 1.15, expense_ratio = 1.65,
         inception_date = ''2012-06-10''\<rparr>"]
     liquidity_requirements [of "[\<lparr>nav = 10, total_return = 1, benchmark_return = 1, assets_under_management = 20000000\<rparr>]"
        "\<lparr>fund_type = ''Balanced'', management_fee = 1.15, expense_ratio = 1.65,
         inception_date = ''2012-06-10''\<rparr>"]
    by (simp add: Let_def w1 w2 w3 s1 s2)
qed

section \<open>The aggregate verdict\<close>

lemma checkCompliance_closed_form:
  "checkCompliance h f p a =
     \<lparr>concentrationLimits = checkConcentrationLimits a,
      riskDisclosure = checkRiskDisclosure h f,
      performanceReporting = checkPerformanceReporting p,
      feeDisclosure = checkFeeDisclosure f,
      liquidityRequirements = checkLiquidityRequirements f p,
      overallCompliant =
        (cl_compliant (checkConcentrationLimits a) \<and> fd_compliant (checkFeeDisclosure f)),
      warnings =
        fails (rd_compliant (checkRiskDisclosure h f)) ''Risk Disclosure''
        @ fails (pr_compliant (checkPerformanceReporting p)) ''Performance Reporting''
        @ fails (lr_compliant (checkLiquidityRequirements f p)) ''Liquidity Requirements'',
      violations =
        fails (cl_compliant (checkConcentrationLimits a)) ''Concentration Limits''
        @ fails (fd_compliant (checkFeeDisclosure f)) ''Fee Disclosure''\<rparr>"
  by (cases "cl_compliant (checkConcentrationLimits a)";
      cases "rd_compliant (checkRiskDisclosure h f)";
      cases "pr_compliant (checkPerformanceReporting p)";
      cases "fd_compliant (checkFeeDisclosure f)";
      cases "lr_compliant (checkLiquidityRequirements f p)";
      simp add: checkCompliance_def fails_def)

lemma cl_compliant_iff:
  "cl_compliant (checkConcentrationLimits invs)
     \<longleftrightarrow> (\<forall>inv\<in>set invs. \<not> Fin 20 < Fin (allocation_percentage inv))"
  by (auto simp add: checkConcentrationLimits_def Let_def filter_empty_conv)

lemma fd_compliant_iff:
  "fd_compliant (checkFeeDisclosure f) \<longleftrightarrow>
     \<not> Fin 2.5 < Fin (management_fee f) \<and> \<not> Fin 3.0 < Fin (expense_ratio f)
     \<and> \<not> Fin 4.0 < Fin (management_fee f) + Fin (expense_ratio f)"
  by (auto simp add: checkFeeDisclosure_def Let_def)

lemma rd_compliant_iff:
  "rd_compliant (checkRiskDisclosure h f) \<longleftrightarrow>
     fund_type f \<noteq> [] \<and> \<not> strict_eq (Fin (management_fee f)) (Fin 0)
     \<and> \<not> strict_eq (Fin (expense_ratio f)) (Fin 0) \<and> inception_date f \<noteq> []"
  by (auto simp add: checkRiskDisclosure_def Let_def field_missing_def)

lemma pr_compliant_iff:
  "pr_compliant (checkPerformanceReporting pd) \<longleftrightarrow> 12 \<le> length pd"
  by (auto simp add: checkPerformanceReporting_def Let_def)

lemma lr_compliant_no_data: "\<not> lr_compliant (checkLiquidityRequirements f [])"
  by (simp add: checkLiquidityRequirements_def)

lemma fee_disclosure_three_messages:
  "fd_violations (checkFeeDisclosure \<lparr>fund_type = t, management_fee = 3.0, expense_ratio = 3.5, inception_date = d\<rparr>)
     = [ManagementFeeExceeds 3.0 2.5, ExpenseRatioExceeds 3.5 3.0, TotalFeesExceed (Fin 6.5) 4.0]"
proof -
  have v1: "Fin (7 / 2) = Double (7 / 2)"
    using Fin_eval [of "1" "7 / 2"] by (simp add: round_to_even_def)
  have v2: "Fin (13 / 2) = Double (13 / 2)"
    using Fin_eval [of "2" "13 / 2"] by (simp add: round_to_even_def)
  have v3: "Fin (5 / 2) = Double (5 / 2)"
    using Fin_eval [of "1" "5 / 2"] by (simp add: round_to_even_def)
  have v4: "Fin (23 / 20) = Double (2589569785738035 / 2251799813685248)"
    using Fin_eval [of "0" "23 / 20"] by (simp add: round_to_even_def)
  have v5: "Fin (33 / 20) = Double (3715469692580659 / 2251799813685248)"
    using Fin_eval [of "0" "33 / 20"] by (simp add: round_to_even_def)
  have v6: "Fin (3152519739159347 / 1125899906842624) = Double (3152519739159347 / 1125899906842624)"
    using Fin_eval [of "1" "3152519739159347 / 1125899906842624"] by (simp add: round_to_even_def)
  show ?thesis
    by (simp add: checkFeeDisclosure_def Let_def v1 v2 v3 v4 v5 v6)
qed

lemma fee_values:
  "Fin (7 / 2) = Double (7 / 2)"
  "Fin (13 / 2) = Double (13 / 2)"
  "Fin (5 / 2) = Double (5 / 2)"
  "Fin (23 / 20) = Double (2589569785738035 / 2251799813685248)"
  "Fin (33 / 20) = Double (3715469692580659 / 2251799813685248)"
  "Fin (3152519739159347 / 1125899906842624) = Double (3152519739159347 / 1125899906842624)"
proof -
  have v1: "Fin (7 / 2) = Double (7 / 2)"
    using Fin_eval [of "1" "7 / 2"] by (simp add: round_to_even_def)
  have v2: "Fin (13 / 2) = Double (13 / 2)"
    using Fin_eval [of "2" "13 / 2"] by (simp add: round_to_even_def)
  have v3: "Fin (5 / 2) = Double (5 / 2)"
    using Fin_eval [of "1" "5 / 2"] by (simp add: round_to_even_def)
  have v4: "Fin (23 / 20) = Double (2589569785738035 / 2251799813685248)"
    using Fin_eval [of "0" "23 / 20"] by (simp add: round_to_even_def)
  have v5: "Fin (33 / 20) = Double (3715469692580659 / 2251799813685248)"
    using Fin_eval [of "0" "33 / 20"] by (simp add: round_to_even_def)
  have v6: "Fin (3152519739159347 / 1125899906842624) = Double (3152519739159347 / 1125899906842624)"
    using Fin_eval [of "1" "3152519739159347 / 1125899906842624"] by (simp add: round_to_even_def)
  show "Fin (7 / 2) = Double (7 / 2)"
    "Fin (13 / 2) = Double (13 / 2)"
    "Fin (5 / 2) = Double (5 / 2)"
    "Fin (23 / 20) = Double (2589569785738035 / 2251799813685248)"
    "Fin (33 / 20) = Double (3715469692580659 / 2251799813685248)"
    "Fin (3152519739159347 / 1125899906842624) = Double (3152519739159347 / 1125899906842624)"
    by (fact v1 v2 v3 v4 v5 v6)+
qed

lemma concentration_example:
  "cl_violations (checkConcentrationLimits
      [\<lparr>investment_type = ''REITs'', allocation_percentage = 25, risk_rating = r\<rparr>])
     = [\<lparr>cv_type = ''REITs'', cv_allocation = 25, cv_limit = 20\<rparr>]
   \<and> \<not> cl_compliant (checkConcentrationLimits
      [\<lparr>investment_type = ''REITs'', allocation_percentage = 25, risk_rating = r\<rparr>])"
  by (simp add: checkConcentrationLimits_def Let_def)

text \<open>
  Claim C5. In the aggregate verdict \<open>overallCompliant\<close> is false if and only if the
  concentration-limits check or the fee-disclosure check is not compliant. Those two add
  their names to \<open>violations\<close>; a failure of risk disclosure, performance reporting or
  liquidity requirements adds the check's name to \<open>warnings\<close> and leaves the flag as it
  is. The verdict carries the five checks' results unchanged.
\<close>

theorem compliance_aggregation:
  "(let c = checkCompliance h fundData performanceData alternativeInvestments;
        cl = cl_compliant (checkConcentrationLimits alternativeInvestments);
        rd = rd_compliant (checkRiskDisclosure h fundData);
        pr = pr_compliant (checkPerformanceReporting performanceData);
        fd = fd_compliant (checkFeeDisclosure fundData);
        lr = lr_compliant (checkLiquidityRequirements fundData performanceData)
    in (overallCompliant c = False \<longleftrightarrow> (\<not> cl \<or> \<not> fd))
       \<and> violations c = fails cl ''Concentration Limits'' @ fails fd ''Fee Disclosure''
       \<and> warnings c = fails rd ''Risk Disclosure'' @ fails pr ''Performance Reporting''
                        @ fails lr ''Liquidity Requirements''
       \<and> concentrationLimits c = checkConcentrationLimits alternativeInvestments
       \<and> riskDisclosure c = checkRiskDisclosure h fundData
       \<and> performanceReporting c = checkPerformanceReporting performanceData
       \<and> feeDisclosure c = checkFeeDisclosure fundData
       \<and> liquidityRequirements c = checkLiquidityRequirements fundData performanceData)"
  by (simp add: checkCompliance_closed_form Let_def)

theorem compliance_aggregation_witness:
  "overallCompliant (checkCompliance
      \<lparr>now_getFullYear = 2025, now_toISOString = ''2025-06-01T12:00:00.000Z'',
       parse_getFullYear = map_of [(''2012-06-10'', 2012)]\<rparr>
      \<lparr>fund_type = ''Balanced'', management_fee = 3.0, expense_ratio = 3.5,
       inception_date = ''2012-06-10''\<rparr>
      []
      [\<lparr>investment_type = ''REITs'', allocation_percentage = 25, risk_rating = 6\<rparr>]) = False
   \<and> violations (checkCompliance
      \<lparr>now_getFullYear = 2025, now_toISOString = ''2025-06-01T12:00:00.000Z'',
       parse_getFullYear = map_of [(''2012-06-10'', 2012)]\<rparr>
      \<lparr>fund_type = ''Balanced'', management_fee = 3.0, expense_ratio = 3.5,
       inception_date = ''2012-06-10''\<rparr>
      []
      [\<lparr>investment_type = ''REITs'', allocation_percentage = 25, risk_rating = 6\<rparr>])
       = [''Concentration Limits'', ''Fee Disclosure'']
   \<and> overallCompliant (checkCompliance
      \<lparr>now_getFullYear = 2025, now_toISOString = ''2025-06-01T12:00:00.000Z'',
       parse_getFullYear = map_of [(''2012-06-10'', 2012)]\<rparr>
      \<lparr>fund_type = ''Balanced'', management_fee = 1.15, expense_ratio = 1.65,
       inception_date = []\<rparr>
      []
      [\<lparr>investment_type = ''REITs'', allocation_percentage = 15, risk_rating = 6\<rparr>]) = True
   \<and> warnings (checkCompliance
      \<lparr>now_getFullYear = 2025, now_toISOString = ''2025-06-01T12:00:00.000Z'',
       parse_getFullYear = map_of [(''2012-06-10'', 2012)]\<rparr>
      \<lparr>fund_type = ''Balanced'', management_fee = 1.15, expense_ratio = 1.65,
       inception_date = []\<rparr>
      []
      [\<lparr>investment_type = ''REITs'', allocation_percentage = 15, risk_rating = 6\<rparr>])
       = [''Risk Disclosure'', ''Performance Reporting'', ''Liquidity Requirements'']"
  using compliance_aggregation [of "\<lparr>now_getFullYear = 2025, now_toISOString = ''2025-06-01T12:00:00.000Z'',
       parse_getFullYear = map_of [(''2012-06-10'', 2012)]\<rparr>"
      "\<lparr>fund_type = ''Balanced'', management_fee = 3.0, expense_ratio = 3.5,
       inception_date = ''2012-06-10''\<rparr>"
      "[]"
      "[\<lparr>investment_type = ''REITs'', allocation_percentage = 25, risk_rating = 6\<rparr>]"]
    compliance_aggregation [of "\<lparr>now_getFullYear = 2025, now_toISOString = ''2025-06-01T12:00:00.000Z'',
       parse_getFullYear = map_of [(''2012-06-10'', 2012)]\<rparr>"
      "\<lparr>fund_type = ''Balanced'', management_fee = 1.15, expense_ratio = 1.65,
       inception_date = []\<rparr>"
      "[]"
      "[\<lparr>investment_type = ''REITs'', allocation_percentage = 15, risk_rating = 6\<rparr>]"]
  by (simp add: Let_def fails_def cl_compliant_iff fd_compliant_iff rd_compliant_iff
      pr_compliant_iff lr_compliant_no_data fee_values)

section \<open>Risk score and risk level\<close>

lemma spec_baseScore_range: "2 \<le> spec_baseScore t \<and> spec_baseScore t \<le> 9"
  by (simp add: spec_baseScore_def)

lemma spec_feeAddOn_range: "0 \<le> spec_feeAddOn e \<and> spec_feeAddOn e \<le> 2"
  by (simp add: spec_feeAddOn_def)

lemma spec_ageAddOn_range: "0 \<le> spec_ageAddOn a \<and> spec_ageAddOn a \<le> 2"
  by (simp add: spec_ageAddOn_def)

lemma Fin_small_int: "0 \<le> k \<Longrightarrow> k \<le> 13 \<Longrightarrow> Fin (of_int k) = Double (of_int k)"
  by (rule Fin_of_int) simp

lemma add_small:
  assumes "0 \<le> a" "0 \<le> b" "a + b \<le> 13"
  shows "Double (of_int a) + Double (of_int b) = Double (of_int (a + b))"
  using Fin_small_int [of "a + b"] assms by simp

text \<open>
  The first addition: for a fund type that is no name of an inherited property the
  variable holds the base score of the specification's table.
\<close>

lemma base_score:
  assumes "t \<notin> set Object_prototype"
  shows "(case get_property fundTypeRisk t of
            Own v \<Rightarrow> if v = 0 then add_assign (Number (Fin 0)) (Fin 5)
                     else add_assign (Number (Fin 0)) (Fin v)
          | Inherited \<Rightarrow> Text
          | Undefined \<Rightarrow> add_assign (Number (Fin 0)) (Fin 5))
         = Number (Double (of_int (spec_baseScore t)))"
  using assms by (simp add: get_property_def fundTypeRisk_def spec_baseScore_def)

lemma inherited_property:
  assumes "t \<in> set Object_prototype"
  shows "get_property fundTypeRisk t = Inherited"
  using assms by (auto simp add: get_property_def fundTypeRisk_def Object_prototype_def)

lemma add_assign_Text [simp]:
  "(if b then add_assign Text x else if c then add_assign Text y else Text) = Text"
  by simp

text \<open>
  For every fund type that is no name of an inherited property the score is the minimum
  of 10 and the sum of the base score, the fee add-on and the age add-on.
\<close>

lemma calculateRiskScore_eq:
  assumes "fund_type f \<notin> set Object_prototype"
  shows "calculateRiskScore h f =
     Double (of_int (min 10 (spec_baseScore (fund_type f) + spec_feeAddOn (Fin (expense_ratio f))
                            + spec_ageAddOn (fundAge h f))))"
proof -
  define b where "b = spec_baseScore (fund_type f)"
  define e where "e = spec_feeAddOn (Fin (expense_ratio f))"
  define a where "a = spec_ageAddOn (fundAge h f)"
  have rb: "2 \<le> b" "b \<le> 9" using spec_baseScore_range [of "fund_type f"] by (simp_all add: b_def)
  have re: "0 \<le> e" "e \<le> 2" using spec_feeAddOn_range [of "Fin (expense_ratio f)"] by (simp_all add: e_def)
  have ra: "0 \<le> a" "a \<le> 2" using spec_ageAddOn_range [of "fundAge h f"] by (simp_all add: a_def)
  have fee: "(if Fin 2.0 < Fin (expense_ratio f) then add_assign (Number (Double (of_int b))) (Fin 2)
              else if Fin 1.5 < Fin (expense_ratio f) then add_assign (Number (Double (of_int b))) (Fin 1)
              else Number (Double (of_int b)))
             = Number (Double (of_int (b + e)))"
    using rb add_small [of b 2] add_small [of b 1] by (simp add: e_def spec_feeAddOn_def)
  have age: "(if fundAge h f < Fin 3 then add_assign (Number (Double (of_int (b + e)))) (Fin 2)
              else if fundAge h f < Fin 5 then add_assign (Number (Double (of_int (b + e)))) (Fin 1)
              else Number (Double (of_int (b + e))))
             = Number (Double (of_int (b + e + a)))"
    using rb re add_small [of "b + e" 2] add_small [of "b + e" 1] by (simp add: a_def spec_ageAddOn_def)
  have ten: "Fin 10 = Double (of_int 10)" by simp
  have "calculateRiskScore h f = Math_min (Double (of_int (b + e + a))) (Fin 10)"
    unfolding calculateRiskScore_def Let_def base_score [OF assms] fundAge_def [symmetric]
      b_def [symmetric] fee age
    by simp
  also have "\<dots> = Double (of_int (min 10 (b + e + a)))"
    unfolding ten Math_min_Double by (simp add: min_def)
  finally show ?thesis by (simp only: b_def e_def a_def)
qed

lemma calculateRiskScore_range:
  assumes "fund_type f \<notin> set Object_prototype"
  shows "\<exists>k::int. 1 \<le> k \<and> k \<le> 10 \<and> calculateRiskScore h f = Double (of_int k)"
proof -
  let ?k = "min 10 (spec_baseScore (fund_type f) + spec_feeAddOn (Fin (expense_ratio f))
                     + spec_ageAddOn (fundAge h f))"
  have "1 \<le> ?k \<and> ?k \<le> 10"
    using spec_baseScore_range [of "fund_type f"] spec_feeAddOn_range [of "Fin (expense_ratio f)"]
      spec_ageAddOn_range [of "fundAge h f"] by simp
  then show ?thesis using calculateRiskScore_eq [OF assms, of h] by blast
qed

lemma getRiskLevel_Double:
  "getRiskLevel (Double s) =
     (if s \<le> 3 then ''Low'' else if s \<le> 5 then ''Low-Medium''
      else if s \<le> 7 then ''Medium'' else if s \<le> 9 then ''Medium-High'' else ''High'')"
  by (simp add: getRiskLevel_def)

text \<open>
  A Fixed Income fund with expense ratio 1.0 and inception ten years ago scores 2, which
  is the level Low.
\<close>

lemma risk_score_example:
  "calculateRiskScore
        \<lparr>now_getFullYear = 2025, now_toISOString = ''2025-06-01T12:00:00.000Z'',
         parse_getFullYear = map_of [(''2015-03-20'', 2015)]\<rparr>
        \<lparr>fund_type = ''Fixed Income'', management_fee = 0.85, expense_ratio = 1.0,
         inception_date = ''2015-03-20''\<rparr> = Fin 2
   \<and> getRiskLevel (Fin 2) = ''Low''"
proof -
  have half: "Fin (3 / 2) = Double (3 / 2)"
    using Fin_eval [of "0" "3 / 2"] by (simp add: round_to_even_def)
  show ?thesis
    by (simp add: calculateRiskScore_eq Object_prototype_def spec_baseScore_def spec_feeAddOn_def
        spec_ageAddOn_def fundAge_def fullYear_number_def getRiskLevel_Double half)
qed

text \<open>
  Claim C8 fails for a fund whose type is the name of a property that every object
  inherits. \<open>fundTypeRisk['constructor']\<close> is not \<open>undefined\<close> but the function
  \<open>Object\<close>, which the default \<open>|| 5\<close> does not replace; adding it to the score
  makes the score a text, and \<open>Math.min\<close> returns \<open>NaN\<close>, which is no integer between
  1 and 10 and which \<open>getRiskLevel\<close> calls High. The same holds for the other inherited
  names.
\<close>

theorem risk_score_inherited_property:
  "calculateRiskScore h (f\<lparr>fund_type := ''constructor''\<rparr>) = NaN
   \<and> getRiskLevel (calculateRiskScore h (f\<lparr>fund_type := ''constructor''\<rparr>)) = ''High''"
proof -
  have "get_property fundTypeRisk ''constructor'' = Inherited"
    by (rule inherited_property) (simp add: Object_prototype_def)
  then have "calculateRiskScore h (f\<lparr>fund_type := ''constructor''\<rparr>) = NaN"
    by (simp add: calculateRiskScore_def Let_def)
  then show ?thesis by (simp add: getRiskLevel_def)
qed

lemma risk_score_inherited_names:
  assumes "fund_type f \<in> set Object_prototype"
  shows "calculateRiskScore h f = NaN"
  using inherited_property [OF assms] by (simp add: calculateRiskScore_def Let_def)

section \<open>Dependence on the host's clock\<close>

text \<open>
  The score, the alerts, the risk disclosure and the verdict in terms of the fund's age.
\<close>

lemma riskScore_age:
  "fundAge h1 f = fundAge h2 f \<Longrightarrow> calculateRiskScore h1 f = calculateRiskScore h2 f"
  unfolding calculateRiskScore_def fundAge_def [symmetric] by simp

lemma alerts_age:
  "fundAge h1 f = fundAge h2 f \<Longrightarrow> checkRegulatoryAlerts h1 f p = checkRegulatoryAlerts h2 f p"
  unfolding checkRegulatoryAlerts_def fundAge_def [symmetric] by simp

lemma riskDisclosure_age:
  "fundAge h1 f = fundAge h2 f \<Longrightarrow> checkRiskDisclosure h1 f = checkRiskDisclosure h2 f"
  by (simp add: checkRiskDisclosure_def riskScore_age [of h1 f h2])

lemma compliance_age:
  "fundAge h1 f = fundAge h2 f \<Longrightarrow> checkCompliance h1 f p a = checkCompliance h2 f p a"
  by (simp only: checkCompliance_closed_form riskDisclosure_age [of h1 f h2])

lemma report_host:
  "generateComplianceReport h1 i c = (generateComplianceReport h2 i c)\<lparr>reportDate := now_toISOString h1\<rparr>"
  by (simp add: generateComplianceReport_def)

text \<open>
  The age is the difference of the two years, so a fund has the same age under two hosts
  whose years differ by as much as their readings of the inception date.
\<close>

lemma fundAge_years:
  assumes "parse_getFullYear h f_date = Some y" "inception_date f = f_date"
    "\<bar>now_getFullYear h\<bar> < 2 ^ 52" "\<bar>y\<bar> < 2 ^ 52"
  shows "fundAge h f = Double (of_int (now_getFullYear h - y))"
proof -
  have 1: "Fin (of_int (now_getFullYear h)) = Double (of_int (now_getFullYear h))"
    using assms(3) by (intro Fin_of_int) simp
  have 2: "Fin (of_int y) = Double (of_int y)" using assms(4) by (intro Fin_of_int) simp
  have "\<bar>now_getFullYear h - y\<bar> < 2 ^ 53" using assms(3,4) by simp
  then have 3: "Fin (of_int (now_getFullYear h - y)) = Double (of_int (now_getFullYear h - y))"
    by (rule Fin_of_int)
  show ?thesis using 3 by (simp add: fundAge_def fullYear_number_def assms(1,2) 1 2)
qed

text \<open>
  Claim C3, amended. The operations keep no state, and the statistics and the checks of
  concentration limits, performance reporting, fee disclosure and liquidity requirements
  do not read the host. \<open>calculateRiskScore\<close>, \<open>checkRegulatoryAlerts\<close> and
  \<open>checkCompliance\<close> read the host's date, and depend on it only through the fund's
  age, the current year minus the year the host reads from the inception date: two
  invocations with the same arguments under hosts that give the fund the same age return
  the same score, alerts and verdict. \<open>generateComplianceReport\<close> reads the current
  timestamp, which it stores as \<open>reportDate\<close>, and nothing else: the reports of the two
  invocations differ at most in \<open>reportDate\<close>.
\<close>

theorem engine_depends_on_fund_age_only:
  "fundAge h1 f = fundAge h2 f \<longrightarrow>
      calculateRiskScore h1 f = calculateRiskScore h2 f
      \<and> checkRegulatoryAlerts h1 f p = checkRegulatoryAlerts h2 f p
      \<and> checkCompliance h1 f p a = checkCompliance h2 f p a
      \<and> generateComplianceReport h1 i (checkCompliance h1 f p a)
          = (generateComplianceReport h2 i (checkCompliance h2 f p a))
              \<lparr>reportDate := now_toISOString h1\<rparr>"
proof
  assume eq: "fundAge h1 f = fundAge h2 f"
  have rs: "calculateRiskScore h1 f = calculateRiskScore h2 f"
    using eq by (rule riskScore_age)
  have al: "checkRegulatoryAlerts h1 f p = checkRegulatoryAlerts h2 f p"
    using eq by (rule alerts_age)
  have cc: "checkCompliance h1 f p a = checkCompliance h2 f p a"
    using eq by (rule compliance_age)
  have "generateComplianceReport h1 i (checkCompliance h1 f p a)
          = (generateComplianceReport h2 i (checkCompliance h1 f p a))
              \<lparr>reportDate := now_toISOString h1\<rparr>"
    by (rule report_host)
  then have rep: "generateComplianceReport h1 i (checkCompliance h1 f p a)
          = (generateComplianceReport h2 i (checkCompliance h2 f p a))
              \<lparr>reportDate := now_toISOString h1\<rparr>"
    by (simp only: cc)
  from rs al cc rep
  show "calculateRiskScore h1 f = calculateRiskScore h2 f
      \<and> checkRegulatoryAlerts h1 f p = checkRegulatoryAlerts h2 f p
      \<and> checkCompliance h1 f p a = checkCompliance h2 f p a
      \<and> generateComplianceReport h1 i (checkCompliance h1 f p a)
          = (generateComplianceReport h2 i (checkCompliance h2 f p a))
              \<lparr>reportDate := now_toISOString h1\<rparr>"
    by (intro conjI)
qed

text \<open>
  Two invocations an hour apart, shortly after midnight of New Year's Day 2025 in
  universal time, the second on a host whose time zone lies behind: it is still in 2024
  and reads the inception date, midnight of New Year's Day 2020, as a day of 2019. The
  fund is five years old under both, its score is 6 under both, and it raises the same
  alert on fees; the two reports carry different dates.
\<close>

theorem engine_depends_on_fund_age_only_witness:
  "fundAge \<lparr>now_getFullYear = 2025, now_toISOString = ''2025-01-01T02:00:00.000Z'',
       parse_getFullYear = map_of [(''2020-01-01T00:00:00.000Z'', 2020)]\<rparr>
      \<lparr>fund_type = ''Balanced'', management_fee = 1.15, expense_ratio = 2.25,
       inception_date = ''2020-01-01T00:00:00.000Z''\<rparr>
     = fundAge \<lparr>now_getFullYear = 2024, now_toISOString = ''2025-01-01T03:00:00.000Z'',
       parse_getFullYear = map_of [(''2020-01-01T00:00:00.000Z'', 2019)]\<rparr>
      \<lparr>fund_type = ''Balanced'', management_fee = 1.15, expense_ratio = 2.25,
       inception_date = ''2020-01-01T00:00:00.000Z''\<rparr>
   \<and> now_getFullYear \<lparr>now_getFullYear = 2025, now_toISOString = ''2025-01-01T02:00:00.000Z'',
       parse_getFullYear = map_of [(''2020-01-01T00:00:00.000Z'', 2020)]\<rparr>
       \<noteq> now_getFullYear \<lparr>now_getFullYear = 2024, now_toISOString = ''2025-01-01T03:00:00.000Z'',
       parse_getFullYear = map_of [(''2020-01-01T00:00:00.000Z'', 2019)]\<rparr>
   \<and> calculateRiskScore \<lparr>now_getFullYear = 2025, now_toISOString = ''2025-01-01T02:00:00.000Z'',
       parse_getFullYear = map_of [(''2020-01-01T00:00:00.000Z'', 2020)]\<rparr>
      \<lparr>fund_type = ''Balanced'', management_fee = 1.15, expense_ratio = 2.25,
       inception_date = ''2020-01-01T00:00:00.000Z''\<rparr> = Fin 6
   \<and> calculateRiskScore \<lparr>now_getFullYear = 2024, now_toISOString = ''2025-01-01T03:00:00.000Z'',
       parse_getFullYear = map_of [(''2020-01-01T00:00:00.000Z'', 2019)]\<rparr>
      \<lparr>fund_type = ''Balanced'', management_fee = 1.15, expense_ratio = 2.25,
       inception_date = ''2020-01-01T00:00:00.000Z''\<rparr> = Fin 6
   \<and> map alert_type (checkRegulatoryAlerts \<lparr>now_getFullYear = 2025, now_toISOString = ''2025-01-01T02:00:00.000Z'',
       parse_getFullYear = map_of [(''2020-01-01T00:00:00.000Z'', 2020)]\<rparr>
      \<lparr>fund_type = ''Balanced'', management_fee = 1.15, expense_ratio = 2.25,
       inception_date = ''2020-01-01T00:00:00.000Z''\<rparr>
      [\<lparr>nav = 10, total_return = 1, benchmark_return = 1, assets_under_management = 100000000\<rparr>,
       \<lparr>nav = 11, total_return = 3, benchmark_return = 2, assets_under_management = 10000000\<rparr>]) = [''HIGH_FEES'']
   \<and> checkRegulatoryAlerts \<lparr>now_getFullYear = 2025, now_toISOString = ''2025-01-01T02:00:00.000Z'',
       parse_getFullYear = map_of [(''2020-01-01T00:00:00.000Z'', 2020)]\<rparr>
      \<lparr>fund_type = ''Balanced'', management_fee = 1.15, expense_ratio = 2.25,
       inception_date = ''2020-01-01T00:00:00.000Z''\<rparr>
      [\<lparr>nav = 10, total_return = 1, benchmark_return = 1, assets_under_management = 100000000\<rparr>,
       \<lparr>nav = 11, total_return = 3, benchmark_return = 2, assets_under_management = 10000000\<rparr>]
     = checkRegulatoryAlerts \<lparr>now_getFullYear = 2024, now_toISOString = ''2025-01-01T03:00:00.000Z'',
       parse_getFullYear = map_of [(''2020-01-01T00:00:00.000Z'', 2019)]\<rparr>
      \<lparr>fund_type = ''Balanced'', management_fee = 1.15, expense_ratio = 2.25,
       inception_date = ''2020-01-01T00:00:00.000Z''\<rparr>
      [\<lparr>nav = 10, total_return = 1, benchmark_return = 1, assets_under_management = 100000000\<rparr>,
       \<lparr>nav = 11, total_return = 3, benchmark_return = 2, assets_under_management = 10000000\<rparr>]
   \<and> checkCompliance \<lparr>now_getFullYear = 2025, now_toISOString = ''2025-01-01T02:00:00.000Z'',
       parse_getFullYear = map_of [(''2020-01-01T00:00:00.000Z'', 2020)]\<rparr>
      \<lparr>fund_type = ''Balanced'', management_fee = 1.15, expense_ratio = 2.25,
       inception_date = ''2020-01-01T00:00:00.000Z''\<rparr>
      [\<lparr>nav = 10, total_return = 1, benchmark_return = 1, assets_under_management = 100000000\<rparr>,
       \<lparr>nav = 11, total_return = 3, benchmark_return = 2, assets_under_management = 10000000\<rparr>]
      [\<lparr>investment_type = ''REITs'', allocation_percentage = 25, risk_rating = 6\<rparr>]
     = checkCompliance \<lparr>now_getFullYear = 2024, now_toISOString = ''2025-01-01T03:00:00.000Z'',
       parse_getFullYear = map_of [(''2020-01-01T00:00:00.000Z'', 2019)]\<rparr>
      \<lparr>fund_type = ''Balanced'', management_fee = 1.15, expense_ratio = 2.25,
       inception_date = ''2020-01-01T00:00:00.000Z''\<rparr>
      [\<lparr>nav = 10, total_return = 1, benchmark_return = 1, assets_under_management = 100000000\<rparr>,
       \<lparr>nav = 11, total_return = 3, benchmark_return = 2, assets_under_management = 10000000\<rparr>]
      [\<lparr>investment_type = ''REITs'', allocation_percentage = 25, risk_rating = 6\<rparr>]
   \<and> reportDate (generateComplianceReport \<lparr>now_getFullYear = 2025, now_toISOString = ''2025-01-01T02:00:00.000Z'',
       parse_getFullYear = map_of [(''2020-01-01T00:00:00.000Z'', 2020)]\<rparr> (1::nat) (checkCompliance \<lparr>now_getFullYear = 2025, now_toISOString = ''2025-01-01T02:00:00.000Z'',
       parse_getFullYear = map_of [(''2020-01-01T00:00:00.000Z'', 2020)]\<rparr>
      \<lparr>fund_type = ''Balanced'', management_fee = 1.15, expense_ratio = 2.25,
       inception_date = ''2020-01-01T00:00:00.000Z''\<rparr>
      [\<lparr>nav = 10, total_return = 1, benchmark_return = 1, assets_under_management = 100000000\<rparr>,
       \<lparr>nav = 11, total_return = 3, benchmark_return = 2, assets_under_management = 10000000\<rparr>]
      [\<lparr>investment_type = ''REITs'', allocation_percentage = 25, risk_rating = 6\<rparr>]))
     \<noteq> reportDate (generateComplianceReport \<lparr>now_getFullYear = 2024, now_toISOString = ''2025-01-01T03:00:00.000Z'',
       parse_getFullYear = map_of [(''2020-01-01T00:00:00.000Z'', 2019)]\<rparr> (1::nat) (checkCompliance \<lparr>now_getFullYear = 2024, now_toISOString = ''2025-01-01T03:00:00.000Z'',
       parse_getFullYear = map_of [(''2020-01-01T00:00:00.000Z'', 2019)]\<rparr>
      \<lparr>fund_type = ''Balanced'', management_fee = 1.15, expense_ratio = 2.25,
       inception_date = ''2020-01-01T00:00:00.000Z''\<rparr>
      [\<lparr>nav = 10, total_return = 1, benchmark_return = 1, assets_under_management = 100000000\<rparr>,
       \<lparr>nav = 11, total_return = 3, benchmark_return = 2, assets_under_management = 10000000\<rparr>]
      [\<lparr>investment_type = ''REITs'', allocation_percentage = 25, risk_rating = 6\<rparr>]))"
proof -
  have age: "fundAge \<lparr>now_getFullYear = 2025, now_toISOString = ''2025-01-01T02:00:00.000Z'',
       parse_getFullYear = map_of [(''2020-01-01T00:00:00.000Z'', 2020)]\<rparr>
      \<lparr>fund_type = ''Balanced'', management_fee = 1.15, expense_ratio = 2.25,
       inception_date = ''2020-01-01T00:00:00.000Z''\<rparr>
     = fundAge \<lparr>now_getFullYear = 2024, now_toISOString = ''2025-01-01T03:00:00.000Z'',
       parse_getFullYear = map_of [(''2020-01-01T00:00:00.000Z'', 2019)]\<rparr>
      \<lparr>fund_type = ''Balanced'', management_fee = 1.15, expense_ratio = 2.25,
       inception_date = ''2020-01-01T00:00:00.000Z''\<rparr>"
    by (simp add: fundAge_def fullYear_number_def)
  have half: "Fin (3 / 2) = Double (3 / 2)"
    using Fin_eval [of "0" "3 / 2"] by (simp add: round_to_even_def)
  have er: "Fin (9 / 4) = Double (9 / 4)"
    using Fin_eval [of "1" "9 / 4"] by (simp add: round_to_even_def)
  have score: "calculateRiskScore \<lparr>now_getFullYear = 2025, now_toISOString = ''2025-01-01T02:00:00.000Z'',
       parse_getFullYear = map_of [(''2020-01-01T00:00:00.000Z'', 2020)]\<rparr>
      \<lparr>fund_type = ''Balanced'', management_fee = 1.15, expense_ratio = 2.25,
       inception_date = ''2020-01-01T00:00:00.000Z''\<rparr> = Fin 6"
    by (simp add: calculateRiskScore_def get_property_def fundTypeRisk_def Let_def
        fullYear_number_def half er)
  have vol1: "sqrt (1) = 1"
    by (rule real_sqrt_unique) (simp_all add: power2_eq_square)
  have alerts: "map alert_type (checkRegulatoryAlerts \<lparr>now_getFullYear = 2025, now_toISOString = ''2025-01-01T02:00:00.000Z'',
       parse_getFullYear = map_of [(''2020-01-01T00:00:00.000Z'', 2020)]\<rparr>
      \<lparr>fund_type = ''Balanced'', management_fee = 1.15, expense_ratio = 2.25,
       inception_date = ''2020-01-01T00:00:00.000Z''\<rparr>
      [\<lparr>nav = 10, total_return = 1, benchmark_return = 1, assets_under_management = 100000000\<rparr>,
       \<lparr>nav = 11, total_return = 3, benchmark_return = 2, assets_under_management = 10000000\<rparr>]) = [''HIGH_FEES'']"
    by (simp add: checkRegulatoryAlerts_def calculateVolatility_def reduce_sum_def
        reduce_squares_def Let_def fullYear_number_def round_half_up_def half er vol1)
  have dates: "reportDate (generateComplianceReport \<lparr>now_getFullYear = 2025, now_toISOString = ''2025-01-01T02:00:00.000Z'',
       parse_getFullYear = map_of [(''2020-01-01T00:00:00.000Z'', 2020)]\<rparr> (1::nat) c1)
     \<noteq> reportDate (generateComplianceReport \<lparr>now_getFullYear = 2024, now_toISOString = ''2025-01-01T03:00:00.000Z'',
       parse_getFullYear = map_of [(''2020-01-01T00:00:00.000Z'', 2019)]\<rparr> (1::nat) c2)" for c1 c2
    by (simp add: generateComplianceReport_def)
  show ?thesis
    using engine_depends_on_fund_age_only [of "\<lparr>now_getFullYear = 2025, now_toISOString = ''2025-01-01T02:00:00.000Z'',
       parse_getFullYear = map_of [(''2020-01-01T00:00:00.000Z'', 2020)]\<rparr>"
      "\<lparr>fund_type = ''Balanced'', management_fee = 1.15, expense_ratio = 2.25,
       inception_date = ''2020-01-01T00:00:00.000Z''\<rparr>"
      "\<lparr>now_getFullYear = 2024, now_toISOString = ''2025-01-01T03:00:00.000Z'',
       parse_getFullYear = map_of [(''2020-01-01T00:00:00.000Z'', 2019)]\<rparr>"
      "[\<lparr>nav = 10, total_return = 1, benchmark_return = 1, assets_under_management = 100000000\<rparr>,
       \<lparr>nav = 11, total_return = 3, benchmark_return = 2, assets_under_management = 10000000\<rparr>]"
      "[\<lparr>investment_type = ''REITs'', allocation_percentage = 25, risk_rating = 6\<rparr>]" "1::nat"] age score alerts dates
    by simp
qed

text \<open>
  The clock is no argument: the same fund, incepted in 2020, scores 6 when the host's year
  is 2021 and 4 when it is 2030.
\<close>

theorem clock_changes_the_score:
  "calculateRiskScore
     \<lparr>now_getFullYear = 2021, now_toISOString = ''2021-06-01T12:00:00.000Z'',
      parse_getFullYear = map_of [(''2020-01-15'', 2020)]\<rparr>
     \<lparr>fund_type = ''Balanced'', management_fee = 1.15, expense_ratio = 1.0,
      inception_date = ''2020-01-15''\<rparr> = Fin 6
   \<and> calculateRiskScore
     \<lparr>now_getFullYear = 2030, now_toISOString = ''2030-06-01T12:00:00.000Z'',
      parse_getFullYear = map_of [(''2020-01-15'', 2020)]\<rparr>
     \<lparr>fund_type = ''Balanced'', management_fee = 1.15, expense_ratio = 1.0,
      inception_date = ''2020-01-15''\<rparr> = Fin 4"
proof -
  have half: "Fin (3 / 2) = Double (3 / 2)"
    using Fin_eval [of "0" "3 / 2"] by (simp add: round_to_even_def)
  show ?thesis
    by (simp add: calculateRiskScore_def get_property_def fundTypeRisk_def Let_def
        fullYear_number_def half)
qed

section \<open>Defaults of the statistics\<close>

text \<open>
  The defaults of the guarded functions: on empty input and on a length mismatch each
  returns its default.
\<close>

lemma defaults_on_empty:
  "calculateVolatility [] = Fin 0"
  "calculateMaxDrawdown [] = Fin 0"
  "calculateSharpeRatio [] rf = Fin 0"
  "calculateSortinoRatio [] rf = Fin 0"
  "calculateBeta [] [] = Fin 1"
  "calculateCorrelation [] [] = Fin 0"
  "calculateInformationRatio [] [] = Fin 0"
  "calculateVaR [] c = Inr (Fin 0)"
  "calculateCVaR [] c = Inr (Fin 0)"
  "calculateConcentrationRisk [] = Fin 0"
  by (simp_all add: calculateVolatility_def calculateMaxDrawdown_def calculateSharpeRatio_def
      calculateSortinoRatio_def calculateBeta_def calculateCorrelation_def
      calculateInformationRatio_def calculateVaR_def calculateCVaR_def
      calculateConcentrationRisk_def)

lemma defaults_on_length_mismatch:
  assumes "length f \<noteq> length b"
  shows "calculateBeta f b = Fin 1"
    and "calculateCorrelation f b = Fin 0"
    and "calculateInformationRatio f b = Fin 0"
  using assms
  by (simp_all add: calculateBeta_def calculateCorrelation_def calculateInformationRatio_def)

text \<open>
  The guards on a zero deviation compare the computed deviation with zero. The mean of
  three observations \<open>0.1\<close> is computed as \<open>0.10000000000000002\<close>, the deviation as
  \<open>2^-56\<close>, and the Sharpe ratio of the constant sequence is not the default but
  \<open>(0.10000000000000002 - 2.5) / 2^-56\<close>.
\<close>

lemma sharpe_ratio_of_constant_returns:
  "calculateSharpeRatio [0.1, 0.1, 0.1] 2.5 = Fin (- 172938225691027040)"
proof -
  have s1: "Fin (1 / 10) = Double (3602879701896397 / 36028797018963968)"
    using Fin_eval [of "- 4" "1 / 10"] by (simp add: round_to_even_def)
  have s2: "Fin (3602879701896397 / 36028797018963968) = Double (3602879701896397 / 36028797018963968)"
    using Fin_eval [of "- 4" "3602879701896397 / 36028797018963968"] by (simp add: round_to_even_def)
  have s3: "Fin (3602879701896397 / 18014398509481984) = Double (3602879701896397 / 18014398509481984)"
    using Fin_eval [of "- 3" "3602879701896397 / 18014398509481984"] by (simp add: round_to_even_def)
  have s4: "Fin (10808639105689191 / 36028797018963968) = Double (1351079888211149 / 4503599627370496)"
    using Fin_eval [of "- 2" "10808639105689191 / 36028797018963968"] by (simp add: round_to_even_def)
  have s5: "Fin (1351079888211149 / 13510798882111488) = Double (7205759403792795 / 72057594037927936)"
    using Fin_eval [of "- 4" "1351079888211149 / 13510798882111488"] by (simp add: round_to_even_def)
  have s6: "Fin (- (1 / 72057594037927936)) = Double (- (1 / 72057594037927936))"
    using Fin_eval [of "- 56" "- (1 / 72057594037927936)"] by (simp add: round_to_even_def)
  have s7: "Fin (1 / 5192296858534827628530496329220096) = Double (1 / 5192296858534827628530496329220096)"
    using Fin_eval [of "- 112" "1 / 5192296858534827628530496329220096"] by (simp add: round_to_even_def)
  have s8: "Fin (1 / 2596148429267413814265248164610048) = Double (1 / 2596148429267413814265248164610048)"
    using Fin_eval [of "- 111" "1 / 2596148429267413814265248164610048"] by (simp add: round_to_even_def)
  have s9: "Fin (3 / 5192296858534827628530496329220096) = Double (3 / 5192296858534827628530496329220096)"
    using Fin_eval [of "- 111" "3 / 5192296858534827628530496329220096"] by (simp add: round_to_even_def)
  have s10: "sqrt (1 / 5192296858534827628530496329220096) = 1 / 72057594037927936"
    by (rule real_sqrt_unique) (simp_all add: power2_eq_square)
  have s11: "Fin (1 / 72057594037927936) = Double (1 / 72057594037927936)"
    using Fin_eval [of "- 56" "1 / 72057594037927936"] by (simp add: round_to_even_def)
  have s12: "Fin (5 / 2) = Double (5 / 2)"
    using Fin_eval [of "1" "5 / 2"] by (simp add: round_to_even_def)
  have s13: "Fin (- (172938225691027045 / 72057594037927936)) = Double (- (5404319552844595 / 2251799813685248))"
    using Fin_eval [of "1" "- (172938225691027045 / 72057594037927936)"] by (simp add: round_to_even_def)
  have s14: "Fin (- 172938225691027040) = Double (- 172938225691027040)"
    using Fin_eval [of "57" "- 172938225691027040"] by (simp add: round_to_even_def)
  show ?thesis
    by (simp add: calculateSharpeRatio_def reduce_sum_def reduce_squares_def Let_def
        round_half_up_def s1 s2 s3 s4 s5 s6 s7 s8 s9 s10 s11 s12 s13 s14)
qed

text \<open>
  Claim C1 fails for the Treynor ratio and for Jensen's alpha, the two functions without a
  guard on the length: with empty returns \<open>calculateBeta\<close> gives its default \<open>1\<close>, the
  mean is \<open>0 / 0\<close>, and the result is \<open>NaN\<close>, whatever the benchmark and the risk-free
  rate; Jensen's alpha is \<open>NaN\<close> for an empty benchmark as well.
\<close>

theorem treynor_jensen_NaN_on_empty:
  "calculateTreynorRatio [] benchmarkReturns riskFreeRate = NaN
   \<and> calculateJensensAlpha [] benchmarkReturns riskFreeRate = NaN
   \<and> calculateJensensAlpha fundReturns [] riskFreeRate = NaN"
proof -
  have b1: "calculateBeta [] benchmarkReturns = Fin 1" by (simp add: calculateBeta_def)
  have b2: "calculateBeta fundReturns [] = Fin 1" by (simp add: calculateBeta_def)
  have t: "calculateTreynorRatio [] benchmarkReturns riskFreeRate = NaN"
    by (simp add: calculateTreynorRatio_def b1 reduce_sum_def)
  have j1: "calculateJensensAlpha [] benchmarkReturns riskFreeRate = NaN"
    by (simp add: calculateJensensAlpha_def b1 reduce_sum_def)
  have j2: "calculateJensensAlpha fundReturns [] riskFreeRate = NaN"
    by (simp add: calculateJensensAlpha_def b2 reduce_sum_def)
  show ?thesis using t j1 j2 by simp
qed

section \<open>Annualized return\<close>

text \<open>
  What the code raises to the power is one plus a sum, where the specification has a
  product: for a single return \<open>r\<close> the base is \<open>1 + (1 + r / 100)\<close> in the code and
  \<open>1 * (1 + r / 100)\<close> in the specification.
\<close>

lemma annualized_single_return:
  "calculateAnnualizedReturn [r] t =
     toFixed ((Math_pow (Fin 1 + (Fin 1 + Fin r / Fin 100)) (Fin 12 / Fin t) - Fin 1) * Fin 100) 2"
  "spec_AnnualizedReturn [r] t =
     toFixed ((Math_pow (Fin 1 * (Fin 1 + Fin r / Fin 100)) (Fin 12 / Fin t) - Fin 1) * Fin 100) 2"
  unfolding calculateAnnualizedReturn_def spec_AnnualizedReturn_def Let_def by simp_all

text \<open>
  Claim C2 fails on the code. For the single period return of 10 percent over twelve
  periods the compounded product is \<open>1.1\<close> and the annualized return \<open>10.00\<close>;
  \<open>calculateAnnualizedReturn\<close> adds \<open>1 + r / 100\<close> to the initial \<open>1\<close> instead of
  multiplying, reaches \<open>2.1\<close> and returns \<open>110.00\<close>. On the empty sequence both are \<open>0\<close>.
\<close>

theorem annualized_return_sums_instead_of_compounding:
  "calculateAnnualizedReturn [10] 12 = Fin 110
   \<and> spec_AnnualizedReturn [10] 12 = Fin 10
   \<and> calculateAnnualizedReturn [] 12 = Fin 0"
proof -
  have a1: "Fin (1 / 10) = Double (3602879701896397 / 36028797018963968)"
    using Fin_eval [of "- 4" "1 / 10"] by (simp add: round_to_even_def)
  have a2: "Fin (39631676720860365 / 36028797018963968) = Double (2476979795053773 / 2251799813685248)"
    using Fin_eval [of "0" "39631676720860365 / 36028797018963968"] by (simp add: round_to_even_def)
  have a3: "Fin (4728779608739021 / 2251799813685248) = Double (4728779608739021 / 2251799813685248)"
    using Fin_eval [of "1" "4728779608739021 / 2251799813685248"] by (simp add: round_to_even_def)
  have a4: "Fin (2476979795053773 / 2251799813685248) = Double (2476979795053773 / 2251799813685248)"
    using Fin_eval [of "0" "2476979795053773 / 2251799813685248"] by (simp add: round_to_even_def)
  have a5: "Fin (61924494876344325 / 562949953421312) = Double (7740561859543041 / 70368744177664)"
    using Fin_eval [of "6" "61924494876344325 / 562949953421312"] by (simp add: round_to_even_def)
  have a6: "Fin (225179981368525 / 2251799813685248) = Double (225179981368525 / 2251799813685248)"
    using Fin_eval [of "- 4" "225179981368525 / 2251799813685248"] by (simp add: round_to_even_def)
  have a7: "Fin (5629499534213125 / 562949953421312) = Double (5629499534213125 / 562949953421312)"
    using Fin_eval [of "3" "5629499534213125 / 562949953421312"] by (simp add: round_to_even_def)
  show ?thesis
    by (simp add: calculateAnnualizedReturn_def spec_AnnualizedReturn_def Let_def round_half_up_def
        a1 a2 a3 a4 a5 a6 a7)
qed

section \<open>Rounding inside the information ratio\<close>

text \<open>
  A tracking error below half a hundredth is rounded to zero, and the information ratio
  then takes its default.
\<close>

lemma information_ratio_small_tracking_error:
  "calculateInformationRatio [0.008, 0] [0, 0] = Fin 0
   \<and> spec_InformationRatio [0.008, 0] [0, 0] = Fin 1"
proof -
  have j1: "Fin (1 / 125) = Double (1152921504606847 / 144115188075855872)"
    using Fin_eval [of "- 7" "1 / 125"] by (simp add: round_to_even_def)
  have j2: "Fin (1152921504606847 / 144115188075855872) = Double (1152921504606847 / 144115188075855872)"
    using Fin_eval [of "- 7" "1152921504606847 / 144115188075855872"] by (simp add: round_to_even_def)
  have j3: "Fin (1152921504606847 / 288230376151711744) = Double (1152921504606847 / 288230376151711744)"
    using Fin_eval [of "- 8" "1152921504606847 / 288230376151711744"] by (simp add: round_to_even_def)
  have j4: "Fin (1329227995784915928244039281409 / 83076749736557242056487941267521536) = Double (4722366482869645 / 295147905179352825856)"
    using Fin_eval [of "- 16" "1329227995784915928244039281409 / 83076749736557242056487941267521536"] by (simp add: round_to_even_def)
  have j5: "Fin (4722366482869645 / 295147905179352825856) = Double (4722366482869645 / 295147905179352825856)"
    using Fin_eval [of "- 16" "4722366482869645 / 295147905179352825856"] by (simp add: round_to_even_def)
  have j6: "Fin (- (1152921504606847 / 288230376151711744)) = Double (- (1152921504606847 / 288230376151711744))"
    using Fin_eval [of "- 8" "- (1152921504606847 / 288230376151711744)"] by (simp add: round_to_even_def)
  have j7: "Fin (4722366482869645 / 147573952589676412928) = Double (4722366482869645 / 147573952589676412928)"
    using Fin_eval [of "- 15" "4722366482869645 / 147573952589676412928"] by (simp add: round_to_even_def)
  have j8: "Fin (sqrt (4722366482869645 / 295147905179352825856)) = Double (1152921504606847 / 288230376151711744)"
    using Fin_sqrt_eval [of "4611686018427388" "- 8" "4722366482869645 / 295147905179352825856"] by (simp add: power2_eq_square)
  have sq: "sqrt (1 / 62500) = 1 / 250"
    by (rule real_sqrt_unique) (simp_all add: power2_eq_square)
  show ?thesis
    by (simp add: calculateInformationRatio_def calculateVolatility_def excess_returns_def upt_2
        reduce_sum_def reduce_squares_def spec_InformationRatio_def Let_def round_half_up_def
        power2_eq_square sq j1 j2 j3 j4 j5 j6 j7 j8)
qed

text \<open>
  Claim C9 fails for the information ratio. Its tracking error is the result of
  \<open>calculateVolatility\<close>, already rounded to two decimals, and the ratio is taken against
  the rounded value: for excess returns \<open>0.024\<close> and \<open>0\<close> the mean and the deviation are
  both \<open>0.012\<close>, the ratio at full precision is \<open>1\<close>, and the code divides by \<open>0.01\<close>
  and returns \<open>1.2\<close>.
\<close>

theorem information_ratio_rounds_tracking_error:
  "calculateInformationRatio [0.024, 0] [0, 0] = Fin 1.2
   \<and> spec_InformationRatio [0.024, 0] [0, 0] = Fin 1"
proof -
  have i1: "Fin (3 / 125) = Double (3458764513820541 / 144115188075855872)"
    using Fin_eval [of "- 6" "3 / 125"] by (simp add: round_to_even_def)
  have i2: "Fin (3458764513820541 / 144115188075855872) = Double (3458764513820541 / 144115188075855872)"
    using Fin_eval [of "- 6" "3458764513820541 / 144115188075855872"] by (simp add: round_to_even_def)
  have i3: "Fin (3458764513820541 / 288230376151711744) = Double (3458764513820541 / 288230376151711744)"
    using Fin_eval [of "- 7" "3458764513820541 / 288230376151711744"] by (simp add: round_to_even_def)
  have i4: "Fin (11963051962064243354196353532681 / 83076749736557242056487941267521536) = Double (5312662293228351 / 36893488147419103232)"
    using Fin_eval [of "- 13" "11963051962064243354196353532681 / 83076749736557242056487941267521536"] by (simp add: round_to_even_def)
  have i5: "Fin (5312662293228351 / 36893488147419103232) = Double (5312662293228351 / 36893488147419103232)"
    using Fin_eval [of "- 13" "5312662293228351 / 36893488147419103232"] by (simp add: round_to_even_def)
  have i6: "Fin (- (3458764513820541 / 288230376151711744)) = Double (- (3458764513820541 / 288230376151711744))"
    using Fin_eval [of "- 7" "- (3458764513820541 / 288230376151711744)"] by (simp add: round_to_even_def)
  have i7: "Fin (5312662293228351 / 18446744073709551616) = Double (5312662293228351 / 18446744073709551616)"
    using Fin_eval [of "- 12" "5312662293228351 / 18446744073709551616"] by (simp add: round_to_even_def)
  have i8: "Fin (sqrt (5312662293228351 / 36893488147419103232)) = Double (3458764513820541 / 288230376151711744)"
    using Fin_sqrt_eval [of "6917529027641082" "- 7" "5312662293228351 / 36893488147419103232"] by (simp add: power2_eq_square)
  have i9: "Fin (1 / 100) = Double (5764607523034235 / 576460752303423488)"
    using Fin_eval [of "- 7" "1 / 100"] by (simp add: round_to_even_def)
  have i10: "Fin (6 / 5) = Double (5404319552844595 / 4503599627370496)"
    using Fin_eval [of "0" "6 / 5"] by (simp add: round_to_even_def)
  have sq: "sqrt (9 / 62500) = 3 / 250"
    by (rule real_sqrt_unique) (simp_all add: power2_eq_square)
  show ?thesis
    by (simp add: calculateInformationRatio_def calculateVolatility_def excess_returns_def upt_2
        reduce_sum_def reduce_squares_def spec_InformationRatio_def Let_def round_half_up_def
        power2_eq_square sq i1 i2 i3 i4 i5 i6 i7 i8 i9 i10)
qed

theorem information_ratio_rounds_tracking_error_witness:
  "calculateInformationRatio [0.024, 0] [0, 0] \<noteq> spec_InformationRatio [0.024, 0] [0, 0]"
proof -
  have "Fin (6 / 5) = Double (5404319552844595 / 4503599627370496)"
    using Fin_eval [of "0" "6 / 5"] by (simp add: round_to_even_def)
  then show ?thesis using information_ratio_rounds_tracking_error by simp
qed

end
